theory Spec2Isabelle
  imports Complex_Main
begin

section \<open>Python values\<close>

text \<open>
  A Python \<open>str\<close> is a sequence of Unicode code points; it is modelled as the list of
  their numbers, so that \<open>str.strip\<close> sees the same characters as the interpreter.
  Keys of decoded JSON objects are only ever compared with the ASCII literals of the
  source and are kept as \<open>string\<close>.
\<close>

type_synonym pystr = "nat list"

definition u :: "string \<Rightarrow> pystr" where
  "u s = map of_char s"

text \<open>
  A Python \<open>float\<close>: the finite values with their exact value, the two infinities
  and NaN. Only comparisons with integer constants are made on them.
\<close>

datatype pyfloat = Fin real | PosInf | NegInf | NaN

text \<open>\<open>const_le c x\<close> is the Python comparison \<open>c <= x\<close>, \<open>le_const x c\<close> is \<open>x <= c\<close>.\<close>

fun const_le :: "real \<Rightarrow> pyfloat \<Rightarrow> bool" where
  "const_le c (Fin r) = (c \<le> r)"
| "const_le c PosInf = True"
| "const_le c NegInf = False"
| "const_le c NaN = False"

fun le_const :: "pyfloat \<Rightarrow> real \<Rightarrow> bool" where
  "le_const (Fin r) c = (r \<le> c)"
| "le_const PosInf c = False"
| "le_const NegInf c = True"
| "le_const NaN c = False"

text \<open>What \<open>response.json()\<close> can return.\<close>

datatype pyval =
    PNone
  | PBool bool
  | PInt int
  | PFloat pyfloat
  | PStr pystr
  | PList "pyval list"
  | PDict "(string \<times> pyval) list"

text \<open>Truth value of an object, as \<open>if x:\<close> tests it.\<close>

fun truthy :: "pyval \<Rightarrow> bool" where
  "truthy PNone = False"
| "truthy (PBool b) = b"
| "truthy (PInt n) = (n \<noteq> 0)"
| "truthy (PFloat f) = (f \<noteq> Fin 0)"
| "truthy (PStr s) = (s \<noteq> [])"
| "truthy (PList xs) = (xs \<noteq> [])"
| "truthy (PDict kvs) = (kvs \<noteq> [])"

section \<open>Errors\<close>

text \<open>
  The \<open>detail\<close> of the HTTPExceptions raised in the source, one constructor per
  message:
  \<^item> \<open>EmptyQuery\<close>: "Error 400 Bad Request: El termino de busqueda no puede estar vacio"
  \<^item> \<open>NoLocations q\<close>: "Error 404 Not Found: No se encontraron ubicaciones para 'q'"
  \<^item> \<open>LatRange\<close>: "Error 400 Bad Request: La latitud debe estar entre -90 y 90"
  \<^item> \<open>LonRange\<close>: "Error 400 Bad Request: La longitud debe estar entre -180 y 180"
  \<^item> \<open>UnexpectedResponse\<close>: "Error 500 Internal Server Error: Respuesta inesperada de la API de Nominatim"
  \<^item> \<open>NoAddress lat lon\<close>: "Error 404 Not Found: No se encontro una direccion para las coordenadas (lat, lon)"
  \<^item> \<open>StatusMessage code\<close>: the text \<open>_get_error_message\<close> builds for an upstream status code.
\<close>

datatype detail =
    EmptyQuery
  | NoLocations pystr
  | LatRange
  | LonRange
  | UnexpectedResponse
  | NoAddress pyfloat pyfloat
  | StatusMessage int

text \<open>
  Every way an operation can end without a value: the HTTPExceptions the source raises,
  and the exceptions of the interpreter and the libraries that the source does not catch.
\<close>

datatype error =
    HTTPException int detail
  | KeyError string
  | AttributeError
  | TypeError
  | ValidationError
  | JSONDecodeError
  | TransportError

definition seq :: "error + 'a \<Rightarrow> ('a \<Rightarrow> error + 'b) \<Rightarrow> error + 'b" where
  "seq m f = (case m of Inl e \<Rightarrow> Inl e | Inr x \<Rightarrow> f x)"

section \<open>Dictionary access\<close>

text \<open>\<open>d.get(k)\<close>: \<open>None\<close> for a missing key; an object that is no dict has no \<open>get\<close>.\<close>

fun py_get :: "pyval \<Rightarrow> string \<Rightarrow> error + pyval" where
  "py_get (PDict kvs) k = Inr (case map_of kvs k of None \<Rightarrow> PNone | Some v \<Rightarrow> v)"
| "py_get _ k = Inl AttributeError"

text \<open>\<open>d.get(k, default)\<close>.\<close>

fun py_get_default :: "pyval \<Rightarrow> string \<Rightarrow> pyval \<Rightarrow> error + pyval" where
  "py_get_default (PDict kvs) k dflt = Inr (case map_of kvs k of None \<Rightarrow> dflt | Some v \<Rightarrow> v)"
| "py_get_default _ k dflt = Inl AttributeError"

text \<open>\<open>d[k]\<close> with a string key: KeyError for a missing key of a dict.\<close>

fun py_getitem :: "pyval \<Rightarrow> string \<Rightarrow> error + pyval" where
  "py_getitem (PDict kvs) k = (case map_of kvs k of None \<Rightarrow> Inl (KeyError k) | Some v \<Rightarrow> Inr v)"
| "py_getitem _ k = Inl TypeError"

section \<open>DTOs\<close>

text \<open>
  The field validators of the model library are not part of this repository: they are a
  parameter. A field declared \<open>int\<close>, \<open>str\<close> or \<open>float\<close> is validated by the
  matching function, \<open>None\<close> meaning a validation error.
\<close>

record validators =
  as_int :: "pyval \<Rightarrow> int option"
  as_str :: "pyval \<Rightarrow> pystr option"
  as_float :: "pyval \<Rightarrow> pyfloat option"

text \<open>A field declared \<open>Optional[T]\<close> accepts \<open>None\<close> and whatever \<open>T\<close> accepts.\<close>

definition optional :: "(pyval \<Rightarrow> 'a option) \<Rightarrow> pyval \<Rightarrow> 'a option option" where
  "optional f v = (case v of PNone \<Rightarrow> Some None | _ \<Rightarrow> map_option Some (f v))"

record AddressDTO =
  house_number :: "pystr option"
  road :: "pystr option"
  neighbourhood :: "pystr option"
  city :: "pystr option"
  state :: "pystr option"
  postcode :: "pystr option"
  country :: "pystr option"
  country_code :: "pystr option"

record LocationDTO =
  place_id :: int
  licence :: pystr
  osm_type :: "pystr option"
  osm_id :: "int option"
  lat :: pystr
  lon :: pystr
  display_name :: pystr
  class_type :: "pystr option"
  type :: "pystr option"
  importance :: "pyfloat option"
  address :: "AddressDTO option"

record GeocodeSearchResponseDTO =
  results :: "LocationDTO list"
  total :: int
  query :: pystr

record ReverseGeocodeResponseDTO =
  r_place_id :: int
  r_licence :: pystr
  r_osm_type :: "pystr option"
  r_osm_id :: "int option"
  r_lat :: pystr
  r_lon :: pystr
  r_display_name :: pystr
  r_class_type :: "pystr option"
  r_type :: "pystr option"
  r_address :: "AddressDTO option"
  lat_input :: pyfloat
  lon_input :: pyfloat

text \<open>
  The constructors: every keyword argument is validated against the declared type of its
  field, and one failing field fails the construction.
\<close>

definition new_AddressDTO ::
  "validators \<Rightarrow> pyval \<Rightarrow> pyval \<Rightarrow> pyval \<Rightarrow> pyval \<Rightarrow> pyval \<Rightarrow> pyval \<Rightarrow> pyval \<Rightarrow> pyval
    \<Rightarrow> error + AddressDTO" where
  "new_AddressDTO V a1 a2 a3 a4 a5 a6 a7 a8 =
     (case (optional (as_str V) a1, optional (as_str V) a2, optional (as_str V) a3,
            optional (as_str V) a4, optional (as_str V) a5, optional (as_str V) a6,
            optional (as_str V) a7, optional (as_str V) a8) of
        (Some x1, Some x2, Some x3, Some x4, Some x5, Some x6, Some x7, Some x8) \<Rightarrow>
          Inr \<lparr>house_number = x1, road = x2, neighbourhood = x3, city = x4, state = x5,
               postcode = x6, country = x7, country_code = x8\<rparr>
      | _ \<Rightarrow> Inl ValidationError)"

definition new_LocationDTO ::
  "validators \<Rightarrow> pyval \<Rightarrow> pyval \<Rightarrow> pyval \<Rightarrow> pyval \<Rightarrow> pyval \<Rightarrow> pyval \<Rightarrow> pyval \<Rightarrow> pyval
    \<Rightarrow> pyval \<Rightarrow> pyval \<Rightarrow> AddressDTO option \<Rightarrow> error + LocationDTO" where
  "new_LocationDTO V a_place_id a_licence a_osm_type a_osm_id a_lat a_lon a_display_name
       a_class_type a_type a_importance a_address =
     (case (as_int V a_place_id, as_str V a_licence, optional (as_str V) a_osm_type,
            optional (as_int V) a_osm_id, as_str V a_lat, as_str V a_lon,
            as_str V a_display_name, optional (as_str V) a_class_type,
            optional (as_str V) a_type, optional (as_float V) a_importance) of
        (Some x1, Some x2, Some x3, Some x4, Some x5, Some x6, Some x7, Some x8, Some x9,
         Some x10) \<Rightarrow>
          Inr \<lparr>place_id = x1, licence = x2, osm_type = x3, osm_id = x4, lat = x5, lon = x6,
               display_name = x7, class_type = x8, type = x9, importance = x10,
               address = a_address\<rparr>
      | _ \<Rightarrow> Inl ValidationError)"

definition new_ReverseGeocodeResponseDTO ::
  "validators \<Rightarrow> pyval \<Rightarrow> pyval \<Rightarrow> pyval \<Rightarrow> pyval \<Rightarrow> pyval \<Rightarrow> pyval \<Rightarrow> pyval \<Rightarrow> pyval
    \<Rightarrow> pyval \<Rightarrow> AddressDTO option \<Rightarrow> pyfloat \<Rightarrow> pyfloat
    \<Rightarrow> error + ReverseGeocodeResponseDTO" where
  "new_ReverseGeocodeResponseDTO V a_place_id a_licence a_osm_type a_osm_id a_lat a_lon
       a_display_name a_class_type a_type a_address a_lat_input a_lon_input =
     (case (as_int V a_place_id, as_str V a_licence, optional (as_str V) a_osm_type,
            optional (as_int V) a_osm_id, as_str V a_lat, as_str V a_lon,
            as_str V a_display_name, optional (as_str V) a_class_type,
            optional (as_str V) a_type) of
        (Some x1, Some x2, Some x3, Some x4, Some x5, Some x6, Some x7, Some x8, Some x9) \<Rightarrow>
          Inr \<lparr>r_place_id = x1, r_licence = x2, r_osm_type = x3, r_osm_id = x4, r_lat = x5,
               r_lon = x6, r_display_name = x7, r_class_type = x8, r_type = x9,
               r_address = a_address, lat_input = a_lat_input, lon_input = a_lon_input\<rparr>
      | _ \<Rightarrow> Inl ValidationError)"

section \<open>Configuration and transport\<close>

text \<open>
  \<open>AppSettings\<close>: the base URL and the user agent are read from the process environment
  (with defaults), so they are parameters here; the timeout is a constant.
\<close>

record AppSettings =
  NOMINATIM_API_BASE_URL :: pystr
  NOMINATIM_USER_AGENT :: pystr

definition TIMEOUT_SECONDS :: int where
  "TIMEOUT_SECONDS = 10"

text \<open>One outbound GET, as \<open>http_client.get\<close> receives it.\<close>

record request =
  url :: pystr
  params :: "(string \<times> pyval) list"
  headers :: "(string \<times> pystr) list"
  timeout :: int

text \<open>
  The provider's answer: its status code and the decoded body (\<open>None\<close> when the body is
  not JSON, in which case \<open>response.json()\<close> raises).
\<close>

record response =
  status_code :: int
  json :: "pyval option"

text \<open>
  What the code runs against: the validators, the settings and the provider behind the
  HTTP client (\<open>None\<close>: the client raised, for instance on a timeout).
\<close>

record env =
  pydantic :: validators
  settings :: AppSettings
  http_get :: "request \<Rightarrow> response option"

text \<open>
  An operation returns its value or error together with the outbound requests it issued,
  in order.
\<close>

type_synonym 'a outcome = "(error + 'a) \<times> request list"

section \<open>NominatimClient\<close>

definition search_request :: "AppSettings \<Rightarrow> pystr \<Rightarrow> int \<Rightarrow> request" where
  "search_request S q limit =
     \<lparr>url = NOMINATIM_API_BASE_URL S @ u ''/search'',
      params = [(''q'', PStr q), (''format'', PStr (u ''json'')), (''limit'', PInt limit),
                (''addressdetails'', PInt 1), (''extratags'', PInt 1),
                (''namedetails'', PInt 1)],
      headers = [(''User-Agent'', NOMINATIM_USER_AGENT S)],
      timeout = TIMEOUT_SECONDS\<rparr>"

definition reverse_request :: "AppSettings \<Rightarrow> pyfloat \<Rightarrow> pyfloat \<Rightarrow> request" where
  "reverse_request S la lo =
     \<lparr>url = NOMINATIM_API_BASE_URL S @ u ''/reverse'',
      params = [(''lat'', PFloat la), (''lon'', PFloat lo), (''format'', PStr (u ''json'')),
                (''addressdetails'', PInt 1), (''extratags'', PInt 1),
                (''namedetails'', PInt 1)],
      headers = [(''User-Agent'', NOMINATIM_USER_AGENT S)],
      timeout = TIMEOUT_SECONDS\<rparr>"

text \<open>\<open>NominatimClient.search_address\<close>.\<close>

definition client_search_address :: "env \<Rightarrow> pystr \<Rightarrow> int \<Rightarrow> (pyval list) outcome" where
  "client_search_address E q limit =
     (let req = search_request (settings E) q limit in
      (case http_get E req of
         None \<Rightarrow> Inl TransportError
       | Some resp \<Rightarrow>
           if status_code resp \<noteq> 200
           then Inl (HTTPException (status_code resp) (StatusMessage (status_code resp)))
           else (case json resp of
                   None \<Rightarrow> Inl JSONDecodeError
                 | Some (PList xs) \<Rightarrow> Inr xs
                 | Some _ \<Rightarrow> Inl (HTTPException 500 UnexpectedResponse)),
       [req]))"

text \<open>\<open>xs\<close> occurs in \<open>ys\<close> as a contiguous block: the test \<open>xs in ys\<close> on two strings.\<close>

fun substring :: "pystr \<Rightarrow> pystr \<Rightarrow> bool" where
  "substring xs [] = (xs = [])"
| "substring xs (y # ys) = (take (length xs) (y # ys) = xs \<or> substring xs ys)"

text \<open>\<open>"error" in data\<close>: a key of a dict, an element of a list, a part of a string.\<close>

fun has_error :: "pyval \<Rightarrow> error + bool" where
  "has_error (PDict kvs) = Inr (map_of kvs ''error'' \<noteq> None)"
| "has_error (PList xs) = Inr (PStr (u ''error'') \<in> set xs)"
| "has_error (PStr s) = Inr (substring (u ''error'') s)"
| "has_error _ = Inl TypeError"

text \<open>\<open>NominatimClient.reverse_geocode\<close>.\<close>

definition client_reverse_geocode :: "env \<Rightarrow> pyfloat \<Rightarrow> pyfloat \<Rightarrow> pyval outcome" where
  "client_reverse_geocode E la lo =
     (let req = reverse_request (settings E) la lo in
      (case http_get E req of
         None \<Rightarrow> Inl TransportError
       | Some resp \<Rightarrow>
           if status_code resp \<noteq> 200
           then Inl (HTTPException (status_code resp) (StatusMessage (status_code resp)))
           else (case json resp of
                   None \<Rightarrow> Inl JSONDecodeError
                 | Some data \<Rightarrow>
                     seq (has_error data)
                       (\<lambda>found. if found then Inl (HTTPException 404 (NoAddress la lo))
                                else Inr data)),
       [req]))"

section \<open>NominatimService\<close>

text \<open>\<open>NominatimService._build_address_dto\<close>.\<close>

definition build_address_dto :: "validators \<Rightarrow> pyval \<Rightarrow> error + AddressDTO" where
  "build_address_dto V address_data =
     seq (py_get address_data ''house_number'') (\<lambda>a1.
     seq (py_get address_data ''road'') (\<lambda>a2.
     seq (py_get address_data ''neighbourhood'') (\<lambda>a3.
     seq (py_get address_data ''city'') (\<lambda>a4.
     seq (py_get address_data ''state'') (\<lambda>a5.
     seq (py_get address_data ''postcode'') (\<lambda>a6.
     seq (py_get address_data ''country'') (\<lambda>a7.
     seq (py_get address_data ''country_code'') (\<lambda>a8.
     new_AddressDTO V a1 a2 a3 a4 a5 a6 a7 a8))))))))"

text \<open>
  The first three lines of both mappings: \<open>address = None\<close>, replaced by the built
  Address when \<open>data.get("address")\<close> is true.
\<close>

definition build_address_of :: "validators \<Rightarrow> pyval \<Rightarrow> error + AddressDTO option" where
  "build_address_of V data =
     seq (py_get data ''address'') (\<lambda>a.
       if truthy a
       then seq (py_getitem data ''address'') (\<lambda>a'.
              seq (build_address_dto V a') (\<lambda>dto. Inr (Some dto)))
       else Inr None)"

text \<open>\<open>NominatimService._build_location_dto\<close>.\<close>

definition build_location_dto :: "validators \<Rightarrow> pyval \<Rightarrow> error + LocationDTO" where
  "build_location_dto V location_data =
     seq (build_address_of V location_data) (\<lambda>addr.
     seq (py_getitem location_data ''place_id'') (\<lambda>a_place_id.
     seq (py_get_default location_data ''licence'' (PStr [])) (\<lambda>a_licence.
     seq (py_get location_data ''osm_type'') (\<lambda>a_osm_type.
     seq (py_get location_data ''osm_id'') (\<lambda>a_osm_id.
     seq (py_getitem location_data ''lat'') (\<lambda>a_lat.
     seq (py_getitem location_data ''lon'') (\<lambda>a_lon.
     seq (py_getitem location_data ''display_name'') (\<lambda>a_display_name.
     seq (py_get location_data ''class'') (\<lambda>a_class.
     seq (py_get location_data ''type'') (\<lambda>a_type.
     seq (py_get location_data ''importance'') (\<lambda>a_importance.
     new_LocationDTO V a_place_id a_licence a_osm_type a_osm_id a_lat a_lon a_display_name
       a_class a_type a_importance addr)))))))))))"

text \<open>The loop of \<open>search_address\<close> over the raw records; the first failure ends it.\<close>

fun build_locations :: "validators \<Rightarrow> pyval list \<Rightarrow> error + LocationDTO list" where
  "build_locations V [] = Inr []"
| "build_locations V (location_data # rest) =
     seq (build_location_dto V location_data) (\<lambda>location.
     seq (build_locations V rest) (\<lambda>locations. Inr (location # locations)))"

text \<open>
  \<open>str.isspace\<close> of one character, and \<open>str.strip()\<close>: the whitespace of both ends
  removed.
\<close>

definition is_space :: "nat \<Rightarrow> bool" where
  "is_space c \<longleftrightarrow>
     (9 \<le> c \<and> c \<le> 13) \<or> (28 \<le> c \<and> c \<le> 32) \<or> c = 133 \<or> c = 160 \<or> c = 5760
     \<or> (8192 \<le> c \<and> c \<le> 8202) \<or> c = 8232 \<or> c = 8233 \<or> c = 8239 \<or> c = 8287
     \<or> c = 12288"

definition strip :: "pystr \<Rightarrow> pystr" where
  "strip s = rev (dropWhile is_space (rev (dropWhile is_space s)))"

text \<open>\<open>NominatimService.search_address\<close>.\<close>

definition service_search_address ::
  "env \<Rightarrow> pystr \<Rightarrow> int \<Rightarrow> GeocodeSearchResponseDTO outcome" where
  "service_search_address E query0 limit =
     (let q = strip query0 in
      if q = [] then (Inl (HTTPException 400 EmptyQuery), [])
      else (case client_search_address E q limit of
              (Inl e, calls) \<Rightarrow> (Inl e, calls)
            | (Inr search_data, calls) \<Rightarrow>
                if search_data = [] then (Inl (HTTPException 404 (NoLocations q)), calls)
                else (seq (build_locations (pydantic E) search_data) (\<lambda>locations.
                        Inr \<lparr>results = locations, total = int (length locations),
                             query = q\<rparr>),
                      calls)))"

text \<open>\<open>NominatimService.reverse_geocode\<close>.\<close>

definition service_reverse_geocode ::
  "env \<Rightarrow> pyfloat \<Rightarrow> pyfloat \<Rightarrow> ReverseGeocodeResponseDTO outcome" where
  "service_reverse_geocode E la lo =
     (if \<not> (const_le (-90) la \<and> le_const la 90) then (Inl (HTTPException 400 LatRange), [])
      else if \<not> (const_le (-180) lo \<and> le_const lo 180)
      then (Inl (HTTPException 400 LonRange), [])
      else (case client_reverse_geocode E la lo of
              (Inl e, calls) \<Rightarrow> (Inl e, calls)
            | (Inr reverse_data, calls) \<Rightarrow>
                (seq (build_address_of (pydantic E) reverse_data) (\<lambda>addr.
                 seq (py_getitem reverse_data ''place_id'') (\<lambda>a_place_id.
                 seq (py_get_default reverse_data ''licence'' (PStr [])) (\<lambda>a_licence.
                 seq (py_get reverse_data ''osm_type'') (\<lambda>a_osm_type.
                 seq (py_get reverse_data ''osm_id'') (\<lambda>a_osm_id.
                 seq (py_getitem reverse_data ''lat'') (\<lambda>a_lat.
                 seq (py_getitem reverse_data ''lon'') (\<lambda>a_lon.
                 seq (py_getitem reverse_data ''display_name'') (\<lambda>a_display_name.
                 seq (py_get reverse_data ''class'') (\<lambda>a_class.
                 seq (py_get reverse_data ''type'') (\<lambda>a_type.
                 new_ReverseGeocodeResponseDTO (pydantic E) a_place_id a_licence a_osm_type
                   a_osm_id a_lat a_lon a_display_name a_class a_type addr la lo)))))))))),
                 calls)))"

section \<open>Request handler of the search endpoint\<close>

text \<open>
  One entry of a RequestValidationError: the path of the offending parameter and the
  reason; the handler reads both with \<open>get\<close> and a default.
\<close>

record validation_error =
  loc :: "string list option"
  msg :: "string option"

datatype content =
    DetailContent detail
  | TextContent string
  | SearchContent GeocodeSearchResponseDTO
  | ReverseContent ReverseGeocodeResponseDTO
  | ServerErrorContent

record http_response =
  status :: int
  body :: content

fun join :: "string \<Rightarrow> string list \<Rightarrow> string" where
  "join sep [] = []"
| "join sep [x] = x"
| "join sep (x # y # ys) = x @ sep @ join sep (y # ys)"

text \<open>\<open>validation_exception_handler\<close> of \<open>main.py\<close>.\<close>

definition validation_exception_handler :: "validation_error list \<Rightarrow> http_response" where
  "validation_exception_handler errors =
     (let error_messages =
            map (\<lambda>e. join '' -> '' (case loc e of None \<Rightarrow> [] | Some l \<Rightarrow> l) @ '': '' @
                      (case msg e of None \<Rightarrow> ''Error de validacion'' | Some m \<Rightarrow> m))
                errors
      in \<lparr>status = 422,
          body = TextContent (''Error 422 Unprocessable Content: '' @ join ''; '' error_messages)\<rparr>)"

text \<open>
  The declared parameters of \<open>search_address\<close> in the controller: \<open>q\<close> is required,
  \<open>limit\<close> is an integer with default 10, \<open>ge=1\<close> and \<open>le=50\<close>. The framework checks them
  before the handler body runs and collects one entry per offending parameter. A
  parameter that is not given is \<open>None\<close>.
\<close>

definition check_q :: "pystr option \<Rightarrow> validation_error list" where
  "check_q q = (case q of
       None \<Rightarrow> [\<lparr>loc = Some [''query'', ''q''], msg = Some ''Field required''\<rparr>]
     | Some _ \<Rightarrow> [])"

definition check_limit :: "int option \<Rightarrow> validation_error list" where
  "check_limit limit = (case limit of
       None \<Rightarrow> []
     | Some n \<Rightarrow>
         if \<not> 1 \<le> n
         then [\<lparr>loc = Some [''query'', ''limit''],
                msg = Some ''Input should be greater than or equal to 1''\<rparr>]
         else if \<not> n \<le> 50
         then [\<lparr>loc = Some [''query'', ''limit''],
                msg = Some ''Input should be less than or equal to 50''\<rparr>]
         else [])"

text \<open>
  \<open>GET /api/nominatim/search\<close>: parameter validation, then the handler body; an
  HTTPException becomes a response with its status code, any other exception a 500.
\<close>

definition controller_search_address ::
  "env \<Rightarrow> pystr option \<Rightarrow> int option \<Rightarrow> http_response \<times> request list" where
  "controller_search_address E q limit =
     (case (check_q q @ check_limit limit, q) of
        ([], Some q') \<Rightarrow>
          (case service_search_address E q' (case limit of None \<Rightarrow> 10 | Some n \<Rightarrow> n) of
             (Inr search_response, calls) \<Rightarrow>
               (\<lparr>status = 200, body = SearchContent search_response\<rparr>, calls)
           | (Inl (HTTPException code d), calls) \<Rightarrow>
               (\<lparr>status = code, body = DetailContent d\<rparr>, calls)
           | (Inl _, calls) \<Rightarrow> (\<lparr>status = 500, body = ServerErrorContent\<rparr>, calls))
      | (errors, _) \<Rightarrow> (validation_exception_handler errors, []))"

section \<open>Request handler of the reverse endpoint\<close>

text \<open>
  The declared parameters of \<open>reverse_geocode\<close> in the controller: \<open>lat\<close> and \<open>lon\<close>
  are required floats, \<open>lat\<close> with \<open>ge=-90\<close> and \<open>le=90\<close>, \<open>lon\<close> with \<open>ge=-180\<close> and
  \<open>le=180\<close>. A value passes when it is at least the lower and at most the upper bound.
\<close>

definition check_lat :: "pyfloat option \<Rightarrow> validation_error list" where
  "check_lat la = (case la of
       None \<Rightarrow> [\<lparr>loc = Some [''query'', ''lat''], msg = Some ''Field required''\<rparr>]
     | Some x \<Rightarrow>
         if \<not> le_const x 90
         then [\<lparr>loc = Some [''query'', ''lat''],
                msg = Some ''Input should be less than or equal to 90''\<rparr>]
         else if \<not> const_le (-90) x
         then [\<lparr>loc = Some [''query'', ''lat''],
                msg = Some ''Input should be greater than or equal to -90''\<rparr>]
         else [])"

definition check_lon :: "pyfloat option \<Rightarrow> validation_error list" where
  "check_lon lo = (case lo of
       None \<Rightarrow> [\<lparr>loc = Some [''query'', ''lon''], msg = Some ''Field required''\<rparr>]
     | Some x \<Rightarrow>
         if \<not> le_const x 180
         then [\<lparr>loc = Some [''query'', ''lon''],
                msg = Some ''Input should be less than or equal to 180''\<rparr>]
         else if \<not> const_le (-180) x
         then [\<lparr>loc = Some [''query'', ''lon''],
                msg = Some ''Input should be greater than or equal to -180''\<rparr>]
         else [])"

text \<open>
  \<open>GET /api/nominatim/reverse\<close>: parameter validation, then the handler body; an
  HTTPException becomes a response with its status code, any other exception a 500.
\<close>

definition controller_reverse_geocode ::
  "env \<Rightarrow> pyfloat option \<Rightarrow> pyfloat option \<Rightarrow> http_response \<times> request list" where
  "controller_reverse_geocode E la lo =
     (case (check_lat la @ check_lon lo, la, lo) of
        ([], Some la', Some lo') \<Rightarrow>
          (case service_reverse_geocode E la' lo' of
             (Inr reverse_response, calls) \<Rightarrow>
               (\<lparr>status = 200, body = ReverseContent reverse_response\<rparr>, calls)
           | (Inl (HTTPException code d), calls) \<Rightarrow>
               (\<lparr>status = code, body = DetailContent d\<rparr>, calls)
           | (Inl _, calls) \<Rightarrow> (\<lparr>status = 500, body = ServerErrorContent\<rparr>, calls))
      | (errors, _, _) \<Rightarrow> (validation_exception_handler errors, []))"

section \<open>Well-formed provider data\<close>

text \<open>
  All that is assumed of the validators: a value that already has the declared type of
  its field is accepted as it is.
\<close>

definition lawful :: "validators \<Rightarrow> bool" where
  "lawful V \<longleftrightarrow>
     (\<forall>n. as_int V (PInt n) = Some n) \<and> (\<forall>s. as_str V (PStr s) = Some s)
     \<and> (\<forall>f. as_float V (PFloat f) = Some f)"

text \<open>The validators that accept nothing else; they serve as the concrete instance.\<close>

definition strict :: validators where
  "strict =
     \<lparr>as_int = (\<lambda>v. case v of PInt n \<Rightarrow> Some n | _ \<Rightarrow> None),
      as_str = (\<lambda>v. case v of PStr s \<Rightarrow> Some s | _ \<Rightarrow> None),
      as_float = (\<lambda>v. case v of PFloat f \<Rightarrow> Some f | _ \<Rightarrow> None)\<rparr>"

fun is_int :: "pyval option \<Rightarrow> bool" where
  "is_int (Some (PInt n)) = True"
| "is_int _ = False"

fun is_str :: "pyval option \<Rightarrow> bool" where
  "is_str (Some (PStr s)) = True"
| "is_str _ = False"

text \<open>An optional entry: missing, \<open>null\<close>, or of the declared type.\<close>

fun opt_int :: "pyval option \<Rightarrow> bool" where
  "opt_int None = True"
| "opt_int (Some PNone) = True"
| "opt_int (Some (PInt n)) = True"
| "opt_int _ = False"

fun opt_str :: "pyval option \<Rightarrow> bool" where
  "opt_str None = True"
| "opt_str (Some PNone) = True"
| "opt_str (Some (PStr s)) = True"
| "opt_str _ = False"

fun opt_float :: "pyval option \<Rightarrow> bool" where
  "opt_float None = True"
| "opt_float (Some PNone) = True"
| "opt_float (Some (PFloat f)) = True"
| "opt_float _ = False"

definition address_keys :: "string list" where
  "address_keys = [''house_number'', ''road'', ''neighbourhood'', ''city'', ''state'',
                   ''postcode'', ''country'', ''country_code'']"

text \<open>A raw address sub-object: a JSON object whose eight named entries are text.\<close>

fun well_formed_address :: "pyval \<Rightarrow> bool" where
  "well_formed_address (PDict kvs) = list_all (\<lambda>k. opt_str (map_of kvs k)) address_keys"
| "well_formed_address _ = False"

text \<open>The \<open>address\<close> entry of a raw record: missing, \<open>null\<close>, or a raw address sub-object.\<close>

fun opt_address :: "pyval option \<Rightarrow> bool" where
  "opt_address None = True"
| "opt_address (Some PNone) = True"
| "opt_address (Some a) = well_formed_address a"

text \<open>
  A raw record as the provider documents it: a JSON object with an integer
  \<open>place_id\<close>, textual \<open>lat\<close>, \<open>lon\<close> and \<open>display_name\<close>, and every other entry
  missing or of the type of its field (\<open>licence\<close> missing or text).
\<close>

fun well_formed :: "pyval \<Rightarrow> bool" where
  "well_formed (PDict kvs) \<longleftrightarrow>
     is_int (map_of kvs ''place_id'') \<and> is_str (map_of kvs ''lat'')
     \<and> is_str (map_of kvs ''lon'') \<and> is_str (map_of kvs ''display_name'')
     \<and> (map_of kvs ''licence'' = None \<or> is_str (map_of kvs ''licence''))
     \<and> opt_str (map_of kvs ''osm_type'') \<and> opt_int (map_of kvs ''osm_id'')
     \<and> opt_str (map_of kvs ''class'') \<and> opt_str (map_of kvs ''type'')
     \<and> opt_float (map_of kvs ''importance'') \<and> opt_address (map_of kvs ''address'')"
| "well_formed _ = False"

text \<open>The value an optional textual entry stands for.\<close>

fun text_of :: "pyval option \<Rightarrow> pystr option" where
  "text_of (Some (PStr s)) = Some s"
| "text_of _ = None"

fun int_of :: "pyval option \<Rightarrow> int option" where
  "int_of (Some (PInt n)) = Some n"
| "int_of _ = None"

fun float_of :: "pyval option \<Rightarrow> pyfloat option" where
  "float_of (Some (PFloat f)) = Some f"
| "float_of _ = None"

text \<open>The Address that stands for a raw address sub-object: its eight named entries.\<close>

definition address_from :: "(string \<times> pyval) list \<Rightarrow> AddressDTO" where
  "address_from kvs =
     \<lparr>house_number = text_of (map_of kvs ''house_number''), road = text_of (map_of kvs ''road''),
      neighbourhood = text_of (map_of kvs ''neighbourhood''), city = text_of (map_of kvs ''city''),
      state = text_of (map_of kvs ''state''), postcode = text_of (map_of kvs ''postcode''),
      country = text_of (map_of kvs ''country''),
      country_code = text_of (map_of kvs ''country_code'')\<rparr>"

definition licence_of :: "pyval option \<Rightarrow> pystr" where
  "licence_of x = (case x of Some (PStr s) \<Rightarrow> s | _ \<Rightarrow> [])"

fun address_of :: "pyval option \<Rightarrow> AddressDTO option" where
  "address_of (Some (PDict kvs)) = (if kvs = [] then None else Some (address_from kvs))"
| "address_of _ = None"

text \<open>The Location that stands for a well-formed raw record.\<close>

definition location_from :: "(string \<times> pyval) list \<Rightarrow> LocationDTO" where
  "location_from kvs =
     \<lparr>place_id = the (int_of (map_of kvs ''place_id'')),
      licence = licence_of (map_of kvs ''licence''),
      osm_type = text_of (map_of kvs ''osm_type''),
      osm_id = int_of (map_of kvs ''osm_id''),
      lat = the (text_of (map_of kvs ''lat'')),
      lon = the (text_of (map_of kvs ''lon'')),
      display_name = the (text_of (map_of kvs ''display_name'')),
      class_type = text_of (map_of kvs ''class''),
      type = text_of (map_of kvs ''type''),
      importance = float_of (map_of kvs ''importance''),
      address = address_of (map_of kvs ''address'')\<rparr>"

text \<open>
  An exception that is no HTTPException leaves the handler uncaught, and the server
  answers with an internal error.
\<close>

fun internal :: "error \<Rightarrow> bool" where
  "internal (HTTPException code d) = False"
| "internal _ = True"

definition required_keys :: "string list" where
  "required_keys = [''place_id'', ''lat'', ''lon'', ''display_name'']"

text \<open>The 400 errors the service itself raises on its input.\<close>

fun invalid_input :: "error \<Rightarrow> bool" where
  "invalid_input (HTTPException code EmptyQuery) = (code = 400)"
| "invalid_input (HTTPException code LatRange) = (code = 400)"
| "invalid_input (HTTPException code LonRange) = (code = 400)"
| "invalid_input _ = False"

text \<open>An operation ends with an error of the given kind.\<close>

definition raises :: "(error \<Rightarrow> bool) \<Rightarrow> error + 'a \<Rightarrow> bool" where
  "raises P m = (case m of Inl e \<Rightarrow> P e | Inr x \<Rightarrow> False)"

text \<open>A coordinate lies in the closed interval from \<open>a\<close> to \<open>b\<close>.\<close>

definition in_range :: "real \<Rightarrow> real \<Rightarrow> pyfloat \<Rightarrow> bool" where
  "in_range a b x = (case x of Fin r \<Rightarrow> a \<le> r \<and> r \<le> b | _ \<Rightarrow> False)"

text \<open>The fields of an Address, each with the key it is read from.\<close>

definition address_fields :: "(string \<times> (AddressDTO \<Rightarrow> pystr option)) list" where
  "address_fields =
     [(''house_number'', house_number), (''road'', road), (''neighbourhood'', neighbourhood),
      (''city'', city), (''state'', state), (''postcode'', postcode), (''country'', country),
      (''country_code'', country_code)]"

text \<open>A raw record has an \<open>address\<close> entry that is a JSON object with at least one entry.\<close>

fun has_address :: "pyval \<Rightarrow> bool" where
  "has_address (PDict kvs) =
     (case map_of kvs ''address'' of Some (PDict a) \<Rightarrow> a \<noteq> [] | _ \<Rightarrow> False)"
| "has_address _ = False"

text \<open>An operation that, when it fails, fails with an internal error.\<close>

definition no_http :: "error + 'a \<Rightarrow> bool" where
  "no_http m \<longleftrightarrow> (case m of Inl e \<Rightarrow> internal e | Inr x \<Rightarrow> True)"

text \<open>The ReverseResult that stands for a well-formed raw record and the caller's input.\<close>

definition reverse_from ::
  "(string \<times> pyval) list \<Rightarrow> pyfloat \<Rightarrow> pyfloat \<Rightarrow> ReverseGeocodeResponseDTO" where
  "reverse_from kvs la lo =
     \<lparr>r_place_id = the (int_of (map_of kvs ''place_id'')),
      r_licence = licence_of (map_of kvs ''licence''),
      r_osm_type = text_of (map_of kvs ''osm_type''),
      r_osm_id = int_of (map_of kvs ''osm_id''),
      r_lat = the (text_of (map_of kvs ''lat'')),
      r_lon = the (text_of (map_of kvs ''lon'')),
      r_display_name = the (text_of (map_of kvs ''display_name'')),
      r_class_type = text_of (map_of kvs ''class''),
      r_type = text_of (map_of kvs ''type''),
      r_address = address_of (map_of kvs ''address''),
      lat_input = la, lon_input = lo\<rparr>"

section \<open>Sample provider data\<close>

definition sample_address :: pyval where
  "sample_address =
     PDict [(''house_number'', PStr (u ''1600'')), (''road'', PStr (u ''Amphitheatre Parkway'')),
            (''neighbourhood'', PStr (u ''North Bayshore'')),
            (''city'', PStr (u ''Mountain View'')), (''state'', PStr (u ''California'')),
            (''postcode'', PStr (u ''94043'')), (''country'', PStr (u ''United States'')),
            (''country_code'', PStr (u ''us''))]"

definition sample_record :: "pyval \<Rightarrow> pyval" where
  "sample_record a =
     PDict [(''place_id'', PInt 123456), (''licence'', PStr (u ''ODbL 1.0'')),
            (''osm_type'', PStr (u ''way'')), (''osm_id'', PInt 23733659),
            (''lat'', PStr (u ''37.4224764'')), (''lon'', PStr (u ''-122.0842499'')),
            (''display_name'', PStr (u ''1600 Amphitheatre Parkway'')),
            (''class'', PStr (u ''place'')), (''type'', PStr (u ''house'')),
            (''importance'', PFloat (Fin 0.5)), (''address'', a)]"

text \<open>A record without \<open>licence\<close> and without any optional entry.\<close>

definition bare_record :: pyval where
  "bare_record =
     PDict [(''place_id'', PInt 7), (''lat'', PStr (u ''1.5'')), (''lon'', PStr (u ''2.5'')),
            (''display_name'', PStr (u ''Somewhere''))]"

text \<open>A record without \<open>lat\<close>.\<close>

definition no_lat_record :: pyval where
  "no_lat_record =
     PDict [(''place_id'', PInt 7), (''licence'', PStr (u ''ODbL 1.0'')),
            (''lon'', PStr (u ''2.5'')), (''display_name'', PStr (u ''Somewhere''))]"

text \<open>A provider that answers every request with status 200 and the given body.\<close>

definition sample_env :: "pyval \<Rightarrow> env" where
  "sample_env data =
     \<lparr>pydantic = strict,
      settings = \<lparr>NOMINATIM_API_BASE_URL = u ''https://nominatim.openstreetmap.org'',
                  NOMINATIM_USER_AGENT = u ''GeocodingApp/1.0''\<rparr>,
      http_get = (\<lambda>req. Some \<lparr>status_code = 200, json = Some data\<rparr>)\<rparr>"

section \<open>Auxiliary lemmas\<close>


lemma seq_Inl [simp]: "seq (Inl e) f = Inl e" by (simp add: seq_def)
lemma seq_Inr [simp]: "seq (Inr x) f = f x" by (simp add: seq_def)

lemma seq_eq_Inr: "seq m f = Inr y \<longleftrightarrow> (\<exists>x. m = Inr x \<and> f x = Inr y)"
  by (cases m) simp_all

lemma strip_empty_iff: "strip s = [] \<longleftrightarrow> (\<forall>c\<in>set s. is_space c)"
proof
  assume a: "strip s = []"
  show "\<forall>c\<in>set s. is_space c"
  proof (cases "dropWhile is_space s")
    case Nil
    then show ?thesis by (simp add: dropWhile_eq_Nil_conv)
  next
    case (Cons x xs)
    then have nx: "\<not> is_space x" using hd_dropWhile [of is_space s] by simp
    from a have "\<forall>c\<in>set (dropWhile is_space s). is_space c"
      by (simp add: strip_def dropWhile_eq_Nil_conv)
    with Cons nx show ?thesis by simp
  qed
next
  assume b: "\<forall>c\<in>set s. is_space c"
  have "set (dropWhile is_space s) \<subseteq> set s" by (auto dest: set_dropWhileD)
  with b show "strip s = []" by (auto simp add: strip_def)
qed

lemma is_str_conv: "is_str x \<longleftrightarrow> (\<exists>s. x = Some (PStr s))"
  by (cases x rule: is_str.cases) simp_all
lemma is_int_conv: "is_int x \<longleftrightarrow> (\<exists>n. x = Some (PInt n))"
  by (cases x rule: is_int.cases) simp_all

lemma optional_str:
  "lawful V \<Longrightarrow> opt_str x \<Longrightarrow> optional (as_str V) (case x of None \<Rightarrow> PNone | Some v \<Rightarrow> v) = Some (text_of x)"
  by (cases x rule: opt_str.cases) (simp_all add: optional_def lawful_def)
lemma optional_int:
  "lawful V \<Longrightarrow> opt_int x \<Longrightarrow> optional (as_int V) (case x of None \<Rightarrow> PNone | Some v \<Rightarrow> v) = Some (int_of x)"
  by (cases x rule: opt_int.cases) (simp_all add: optional_def lawful_def)
lemma optional_float:
  "lawful V \<Longrightarrow> opt_float x \<Longrightarrow> optional (as_float V) (case x of None \<Rightarrow> PNone | Some v \<Rightarrow> v) = Some (float_of x)"
  by (cases x rule: opt_float.cases) (simp_all add: optional_def lawful_def)

lemma build_address_dto_wf:
  assumes "lawful V" "well_formed_address (PDict kvs)"
  shows "build_address_dto V (PDict kvs) = Inr (address_from kvs)"
  using assms
  by (simp add: build_address_dto_def new_AddressDTO_def address_keys_def optional_str address_from_def)


lemma build_address_of_wf:
  assumes "lawful V" "opt_address (map_of kvs ''address'')"
  shows "build_address_of V (PDict kvs) = Inr (address_of (map_of kvs ''address''))"
proof (cases "map_of kvs ''address''")
  case None
  then show ?thesis by (simp add: build_address_of_def)
next
  case (Some a)
  show ?thesis
  proof (cases a)
    case (PDict kvs')
    with Some assms show ?thesis
      by (simp add: build_address_of_def build_address_dto_wf)
  qed (use Some assms in \<open>simp_all add: build_address_of_def\<close>)
qed

lemma build_location_dto_wf:
  assumes "lawful V" "well_formed (PDict kvs)"
  shows "build_location_dto V (PDict kvs) = Inr (location_from kvs)"
proof -
  from assms(2) obtain n la lo dn where
    k: "map_of kvs ''place_id'' = Some (PInt n)" "map_of kvs ''lat'' = Some (PStr la)"
       "map_of kvs ''lon'' = Some (PStr lo)" "map_of kvs ''display_name'' = Some (PStr dn)"
    by (auto simp add: is_str_conv is_int_conv)
  from assms(2) have o: "opt_str (map_of kvs ''osm_type'')" "opt_int (map_of kvs ''osm_id'')"
    "opt_str (map_of kvs ''class'')" "opt_str (map_of kvs ''type'')"
    "opt_float (map_of kvs ''importance'')" "opt_address (map_of kvs ''address'')"
    by simp_all
  from assms have l: "as_str V (case map_of kvs ''licence'' of None \<Rightarrow> PStr [] | Some v \<Rightarrow> v)
      = Some (licence_of (map_of kvs ''licence''))"
    by (auto simp add: is_str_conv lawful_def licence_of_def)
  from assms(1) have v: "as_int V (PInt n) = Some n" "as_str V (PStr la) = Some la"
    "as_str V (PStr lo) = Some lo" "as_str V (PStr dn) = Some dn"
    by (simp_all add: lawful_def)
  show ?thesis
    by (simp add: build_location_dto_def new_LocationDTO_def build_address_of_wf [OF assms(1) o(6)]
        location_from_def
        k l v optional_str [OF assms(1)] optional_int [OF assms(1)] optional_float [OF assms(1)] o)
qed

lemma build_locations_conv:
  "build_locations V rs = Inr ls \<longleftrightarrow> map (build_location_dto V) rs = map Inr ls"
proof (induction rs arbitrary: ls)
  case Nil
  then show ?case by auto
next
  case (Cons r rs)
  show ?case
  proof (cases "build_location_dto V r")
    case (Inl e)
    then show ?thesis by (cases ls) simp_all
  next
    case l: (Inr l)
    show ?thesis
    proof (cases "build_locations V rs")
      case (Inl e)
      with Cons.IH have "\<And>ls'. map (build_location_dto V) rs \<noteq> map Inr ls'" by simp
      with l Inl show ?thesis by (cases ls) simp_all
    next
      case (Inr ls0)
      with Cons.IH have "\<And>ls'. (map (build_location_dto V) rs = map Inr ls') = (ls0 = ls')"
        by (simp add: eq_commute)
      with l Inr show ?thesis by (cases ls) auto
    qed
  qed
qed

lemma build_locations_wf:
  assumes "lawful V" "\<forall>r\<in>set rs. well_formed r"
  shows "\<exists>ls. build_locations V rs = Inr ls \<and> length ls = length rs"
  using assms(2)
proof (induction rs)
  case Nil
  then show ?case by simp
next
  case (Cons r rs)
  then obtain ls where ls: "build_locations V rs = Inr ls" "length ls = length rs" by auto
  from Cons.prems have "well_formed r" by simp
  then obtain kvs where "r = PDict kvs" by (cases r) simp_all
  with \<open>well_formed r\<close> assms(1) have "build_location_dto V r = Inr (location_from kvs)"
    by (simp add: build_location_dto_wf)
  with ls show ?case by simp
qed

lemma strip_sample: "strip (u ''  Mountain View '') = u ''Mountain View''"
  by (simp add: strip_def u_def is_space_def)

lemma lawful_strict: "lawful strict"
  by (simp add: lawful_def strict_def)

lemma wf_sample: "well_formed (sample_record sample_address)"
  by (simp add: sample_record_def sample_address_def address_keys_def)

lemma wf_bare: "well_formed bare_record"
  by (simp add: bare_record_def)

lemma client_search_sample:
  "client_search_address (sample_env (PList rs)) q limit =
     (Inr rs, [search_request (settings (sample_env (PList rs))) q limit])"
  by (simp add: client_search_address_def sample_env_def Let_def)

lemma pydantic_sample: "pydantic (sample_env d) = strict"
  by (simp add: sample_env_def)

lemma no_http_seq: "no_http m \<Longrightarrow> (\<And>x. no_http (f x)) \<Longrightarrow> no_http (seq m f)"
  by (cases m) (simp_all add: no_http_def)

lemma no_http_py_get [simp]: "no_http (py_get d k)"
  by (cases d) (simp_all add: no_http_def)

lemma no_http_py_get_default [simp]: "no_http (py_get_default d k v)"
  by (cases d) (simp_all add: no_http_def)

lemma no_http_py_getitem [simp]: "no_http (py_getitem d k)"
  by (cases d) (simp_all add: no_http_def split: option.splits)

lemma no_http_new_AddressDTO [simp]: "no_http (new_AddressDTO V a1 a2 a3 a4 a5 a6 a7 a8)"
  by (simp add: no_http_def new_AddressDTO_def split: option.splits)

lemma no_http_new_LocationDTO [simp]:
  "no_http (new_LocationDTO V a1 a2 a3 a4 a5 a6 a7 a8 a9 a10 a11)"
  by (simp add: no_http_def new_LocationDTO_def split: option.splits)

lemma no_http_new_ReverseGeocodeResponseDTO [simp]:
  "no_http (new_ReverseGeocodeResponseDTO V a1 a2 a3 a4 a5 a6 a7 a8 a9 a10 a11 a12)"
  by (simp add: no_http_def new_ReverseGeocodeResponseDTO_def split: option.splits)

lemma no_http_Inr [simp]: "no_http (Inr x)"
  by (simp add: no_http_def)

lemma no_http_build_address_dto [simp]: "no_http (build_address_dto V d)"
  unfolding build_address_dto_def by (intro no_http_seq) simp_all

lemma no_http_build_address_of [simp]: "no_http (build_address_of V d)"
  unfolding build_address_of_def
  by (intro no_http_seq) (simp_all add: no_http_seq)

lemma no_http_build_location_dto [simp]: "no_http (build_location_dto V d)"
  unfolding build_location_dto_def by (intro no_http_seq) simp_all

lemma no_http_build_locations [simp]: "no_http (build_locations V rs)"
  by (induction rs) (simp_all add: no_http_seq)

lemma raises_Inl [simp]: "raises P (Inl e) = P e"
  by (simp add: raises_def)

lemma raises_Inr [simp]: "raises P (Inr x) = False"
  by (simp add: raises_def)

lemma no_http_not_invalid: "no_http m \<Longrightarrow> \<not> raises invalid_input m"
  by (cases m) (auto simp add: no_http_def elim: invalid_input.elims)

lemma client_search_not_invalid:
  "client_search_address E q limit = (Inl e, calls) \<Longrightarrow> \<not> invalid_input e"
  by (auto simp add: client_search_address_def Let_def split: option.splits pyval.splits if_splits)

lemma client_reverse_not_invalid:
  "client_reverse_geocode E la lo = (Inl e, calls) \<Longrightarrow> \<not> invalid_input e"
proof -
  have "seq (has_error data)
         (\<lambda>found. if found then Inl (HTTPException 404 (NoAddress la lo)) else Inr data) = Inl e
        \<Longrightarrow> \<not> invalid_input e" for data
    by (cases data) (auto split: if_splits)
  then show "client_reverse_geocode E la lo = (Inl e, calls) \<Longrightarrow> \<not> invalid_input e"
    by (auto simp add: client_reverse_geocode_def Let_def split: option.splits if_splits)
qed

lemma in_range_conv: "in_range a b x \<longleftrightarrow> const_le a x \<and> le_const x b"
  by (cases x) (simp_all add: in_range_def)

lemma no_http_search_tail:
  "\<not> raises invalid_input (seq (build_locations V rs)
       (\<lambda>locations. Inr \<lparr>results = locations, total = int (length locations), query = q\<rparr>))"
  by (rule no_http_not_invalid) (simp add: no_http_seq)

lemma search_invalid_iff:
  "raises invalid_input (fst (service_search_address E q limit)) \<longleftrightarrow> strip q = []"
proof (cases "strip q = []")
  case True
  then show ?thesis by (simp add: service_search_address_def)
next
  case False
  obtain r calls where c: "client_search_address E (strip q) limit = (r, calls)"
    by (cases "client_search_address E (strip q) limit")
  show ?thesis
  proof (cases r)
    case (Inl e)
    with False c client_search_not_invalid [of E "strip q" limit e calls]
    show ?thesis by (simp add: service_search_address_def Let_def)
  next
    case (Inr rs)
    with False c show ?thesis
      by (simp add: service_search_address_def Let_def no_http_search_tail)
  qed
qed

lemma reverse_tail_no_http:
  "no_http (seq (build_address_of V d) (\<lambda>addr.
                 seq (py_getitem d ''place_id'') (\<lambda>a_place_id.
                 seq (py_get_default d ''licence'' (PStr [])) (\<lambda>a_licence.
                 seq (py_get d ''osm_type'') (\<lambda>a_osm_type.
                 seq (py_get d ''osm_id'') (\<lambda>a_osm_id.
                 seq (py_getitem d ''lat'') (\<lambda>a_lat.
                 seq (py_getitem d ''lon'') (\<lambda>a_lon.
                 seq (py_getitem d ''display_name'') (\<lambda>a_display_name.
                 seq (py_get d ''class'') (\<lambda>a_class.
                 seq (py_get d ''type'') (\<lambda>a_type.
                 new_ReverseGeocodeResponseDTO V a_place_id a_licence a_osm_type
                   a_osm_id a_lat a_lon a_display_name a_class a_type addr la lo)))))))))))"
  by (intro no_http_seq) simp_all

lemma reverse_invalid_iff:
  "raises invalid_input (fst (service_reverse_geocode E la lo))
     \<longleftrightarrow> \<not> in_range (-90) 90 la \<or> \<not> in_range (-180) 180 lo"
proof (cases "in_range (-90) 90 la \<and> in_range (-180) 180 lo")
  case False
  then show ?thesis by (auto simp add: service_reverse_geocode_def in_range_conv)
next
  case True
  obtain r calls where c: "client_reverse_geocode E la lo = (r, calls)"
    by (cases "client_reverse_geocode E la lo")
  show ?thesis
  proof (cases r)
    case (Inl e)
    with True c client_reverse_not_invalid [of E la lo e calls]
    show ?thesis by (simp add: service_reverse_geocode_def in_range_conv)
  next
    case (Inr d)
    with True c show ?thesis
      by (simp add: service_reverse_geocode_def in_range_conv
          no_http_not_invalid [OF reverse_tail_no_http])
  qed
qed

section \<open>Invalid input is rejected before any outbound call\<close>

text \<open>
  Claim C5. The service raises its 400 error exactly when the search query is empty or
  consists of whitespace only, and in a reverse lookup exactly when the latitude is
  outside \<open>[-90, 90]\<close> or the longitude outside \<open>[-180, 180]\<close>; whenever it does, no
  request has been sent to the provider.
\<close>

theorem invalid_input_exactly_before_any_call:
  "(raises invalid_input (fst (service_search_address E q limit)) \<longleftrightarrow> (\<forall>c\<in>set q. is_space c))
   \<and> ((\<forall>c\<in>set q. is_space c) \<longrightarrow>
        service_search_address E q limit = (Inl (HTTPException 400 EmptyQuery), []))
   \<and> (raises invalid_input (fst (service_reverse_geocode E la lo))
        \<longleftrightarrow> \<not> in_range (-90) 90 la \<or> \<not> in_range (-180) 180 lo)
   \<and> (\<not> in_range (-90) 90 la \<longrightarrow>
        service_reverse_geocode E la lo = (Inl (HTTPException 400 LatRange), []))
   \<and> (in_range (-90) 90 la \<and> \<not> in_range (-180) 180 lo \<longrightarrow>
        service_reverse_geocode E la lo = (Inl (HTTPException 400 LonRange), []))"
proof (intro conjI impI)
  show "raises invalid_input (fst (service_search_address E q limit)) \<longleftrightarrow> (\<forall>c\<in>set q. is_space c)"
    by (simp only: search_invalid_iff strip_empty_iff)
  show "raises invalid_input (fst (service_reverse_geocode E la lo))
        \<longleftrightarrow> \<not> in_range (-90) 90 la \<or> \<not> in_range (-180) 180 lo"
    by (rule reverse_invalid_iff)
next
  assume "\<forall>c\<in>set q. is_space c"
  then have "strip q = []" by (simp only: strip_empty_iff)
  then show "service_search_address E q limit = (Inl (HTTPException 400 EmptyQuery), [])"
    by (simp add: service_search_address_def)
next
  assume "\<not> in_range (-90) 90 la"
  then show "service_reverse_geocode E la lo = (Inl (HTTPException 400 LatRange), [])"
    by (simp add: service_reverse_geocode_def in_range_conv)
next
  assume "in_range (-90) 90 la \<and> \<not> in_range (-180) 180 lo"
  then show "service_reverse_geocode E la lo = (Inl (HTTPException 400 LonRange), [])"
    by (simp add: service_reverse_geocode_def in_range_conv)
qed

theorem invalid_input_exactly_before_any_call_witness:
  "service_search_address (sample_env (PList [])) [32, 9, 32] 10
      = (Inl (HTTPException 400 EmptyQuery), [])
   \<and> service_reverse_geocode (sample_env (PDict [])) (Fin 90.5) (Fin 0)
      = (Inl (HTTPException 400 LatRange), [])
   \<and> service_reverse_geocode (sample_env (PDict [])) (Fin 45) NaN
      = (Inl (HTTPException 400 LonRange), [])
   \<and> \<not> raises invalid_input (fst (service_search_address (sample_env (PList [])) [32, 97] 10))
   \<and> \<not> raises invalid_input
         (fst (service_reverse_geocode (sample_env (PDict [])) (Fin 45) (Fin (-180))))"
proof -
  have s: "\<forall>c\<in>set [32, 9, 32]. is_space c" by (simp add: is_space_def)
  have t: "\<not> (\<forall>c\<in>set [32, 97]. is_space c)" by (simp add: is_space_def)
  have a: "\<not> in_range (-90) 90 (Fin 90.5)" by (simp add: in_range_def)
  have b: "in_range (-90) 90 (Fin 45) \<and> \<not> in_range (-180) 180 NaN"
    by (simp add: in_range_def)
  have c: "\<not> (\<not> in_range (-90) 90 (Fin 45) \<or> \<not> in_range (-180) 180 (Fin (-180)))"
    by (simp add: in_range_def)
  note A = invalid_input_exactly_before_any_call
         [of "sample_env (PList [])" "[32, 9, 32]" 10 "Fin 90.5" "Fin 0"]
  note B = invalid_input_exactly_before_any_call
         [of "sample_env (PList [])" "[32, 97]" 10 "Fin 45" NaN]
  note C = invalid_input_exactly_before_any_call
         [of "sample_env (PDict [])" "[32, 97]" 10 "Fin 45" "Fin (-180)"]
  note D = invalid_input_exactly_before_any_call
         [of "sample_env (PDict [])" "[32, 97]" 10 "Fin 90.5" "Fin 0"]
  note F = invalid_input_exactly_before_any_call
         [of "sample_env (PDict [])" "[32, 97]" 10 "Fin 45" NaN]
  have 1: "service_search_address (sample_env (PList [])) [32, 9, 32] 10
      = (Inl (HTTPException 400 EmptyQuery), [])"
    using A [THEN conjunct2, THEN conjunct1] s by (rule mp)
  have 2: "service_reverse_geocode (sample_env (PDict [])) (Fin 90.5) (Fin 0)
      = (Inl (HTTPException 400 LatRange), [])"
    using D [THEN conjunct2, THEN conjunct2, THEN conjunct2, THEN conjunct1] a by (rule mp)
  have 3: "service_reverse_geocode (sample_env (PDict [])) (Fin 45) NaN
      = (Inl (HTTPException 400 LonRange), [])"
    using F [THEN conjunct2, THEN conjunct2, THEN conjunct2, THEN conjunct2] b by (rule mp)
  have 4: "\<not> raises invalid_input (fst (service_search_address (sample_env (PList [])) [32, 97] 10))"
    using B [THEN conjunct1] t by (rule ssubst)
  have 5: "\<not> raises invalid_input
         (fst (service_reverse_geocode (sample_env (PDict [])) (Fin 45) (Fin (-180))))"
    using C [THEN conjunct2, THEN conjunct2, THEN conjunct1] c by (rule ssubst)
  from 1 2 3 4 5 show ?thesis by (intro conjI)
qed

section \<open>Search: an empty answer is an error\<close>

text \<open>
  Claim C7. When the upstream client returns an empty sequence, the search fails with
  the 404 error and produces no SearchResult; a SearchResult that is returned never has
  an empty \<open>results\<close> sequence.
\<close>

theorem empty_result_is_not_found:
  "(strip q \<noteq> [] \<and> client_search_address E (strip q) limit = (Inr [], calls) \<longrightarrow>
      service_search_address E q limit = (Inl (HTTPException 404 (NoLocations (strip q))), calls))
   \<and> (\<forall>sr c. service_search_address E q limit = (Inr sr, c) \<longrightarrow> results sr \<noteq> [])"
proof (intro conjI impI allI)
  assume "strip q \<noteq> [] \<and> client_search_address E (strip q) limit = (Inr [], calls)"
  then show "service_search_address E q limit
      = (Inl (HTTPException 404 (NoLocations (strip q))), calls)"
    by (simp add: service_search_address_def Let_def)
next
  fix sr c
  assume a: "service_search_address E q limit = (Inr sr, c)"
  show "results sr \<noteq> []"
  proof (cases "strip q = []")
    case True
    with a show ?thesis by (simp add: service_search_address_def)
  next
    case False
    obtain r calls' where cl: "client_search_address E (strip q) limit = (r, calls')"
      by (cases "client_search_address E (strip q) limit")
    show ?thesis
    proof (cases r)
      case (Inl e)
      with a False cl show ?thesis by (simp add: service_search_address_def Let_def)
    next
      case (Inr rs)
      show ?thesis
      proof (cases rs)
        case Nil
        with a False cl Inr show ?thesis by (simp add: service_search_address_def Let_def)
      next
        case (Cons x xs)
        with a False cl Inr obtain ls where
          ls: "build_locations (pydantic E) (x # xs) = Inr ls" "results sr = ls"
          by (auto simp add: service_search_address_def Let_def seq_eq_Inr)
        from ls(1) have "ls \<noteq> []" by (auto simp add: seq_eq_Inr)
        with ls(2) show ?thesis by simp
      qed
    qed
  qed
qed

lemma strip_a: "strip [32, 97] = [97]"
  by (simp add: strip_def is_space_def)

lemma search_sample_empty:
  "client_search_address (sample_env (PList [])) [97] 10 =
     (Inr [], [search_request (settings (sample_env (PList []))) [97] 10])"
  by (rule client_search_sample)

lemma search_sample_bare:
  "service_search_address (sample_env (PList [bare_record])) [32, 97] 10 =
     (Inr \<lparr>results = [location_from [(''place_id'', PInt 7), (''lat'', PStr (u ''1.5'')),
                (''lon'', PStr (u ''2.5'')), (''display_name'', PStr (u ''Somewhere''))]],
           total = 1, query = [97]\<rparr>,
      [search_request (settings (sample_env (PList [bare_record]))) [97] 10])"
proof -
  have "build_location_dto strict bare_record = Inr (location_from [(''place_id'', PInt 7),
          (''lat'', PStr (u ''1.5'')), (''lon'', PStr (u ''2.5'')),
          (''display_name'', PStr (u ''Somewhere''))])"
    unfolding bare_record_def by (rule build_location_dto_wf [OF lawful_strict]) simp
  then show ?thesis
    by (simp add: service_search_address_def Let_def strip_a client_search_sample pydantic_sample)
qed

theorem empty_result_is_not_found_witness:
  "service_search_address (sample_env (PList [])) [32, 97] 10
     = (Inl (HTTPException 404 (NoLocations [97])),
        [search_request (settings (sample_env (PList []))) [97] 10])
   \<and> (\<exists>sr c. service_search_address (sample_env (PList [bare_record])) [32, 97] 10 = (Inr sr, c)
        \<and> results sr \<noteq> [])"
proof -
  note A = empty_result_is_not_found [of "[32, 97]" "sample_env (PList [])" 10
      "[search_request (settings (sample_env (PList []))) [97] 10]"]
  have h: "strip [32, 97] \<noteq> [] \<and> client_search_address (sample_env (PList [])) (strip [32, 97]) 10
      = (Inr [], [search_request (settings (sample_env (PList []))) [97] 10])"
    by (simp only: strip_a search_sample_empty) simp
  have 1: "service_search_address (sample_env (PList [])) [32, 97] 10
     = (Inl (HTTPException 404 (NoLocations [97])),
        [search_request (settings (sample_env (PList []))) [97] 10])"
    using A [THEN conjunct1, THEN mp, OF h] by (simp only: strip_a)
  note B = empty_result_is_not_found [of "[32, 97]" "sample_env (PList [bare_record])" 10 "[]",
      THEN conjunct2, THEN spec, THEN spec, THEN mp, OF search_sample_bare]
  from search_sample_bare B have 2:
    "\<exists>sr c. service_search_address (sample_env (PList [bare_record])) [32, 97] 10 = (Inr sr, c)
        \<and> results sr \<noteq> []" by blast
  from 1 2 show ?thesis by (rule conjI)
qed

lemma client_reverse_ok:
  assumes "http_get E (reverse_request (settings E) la lo) = Some resp"
    and "status_code resp = 200" and "json resp = Some (PDict kvs)"
  shows "client_reverse_geocode E la lo =
     (if map_of kvs ''error'' \<noteq> None then Inl (HTTPException 404 (NoAddress la lo))
      else Inr (PDict kvs), [reverse_request (settings E) la lo])"
  using assms by (simp add: client_reverse_geocode_def Let_def)

lemma service_reverse_wf:
  assumes "lawful (pydantic E)" and "in_range (-90) 90 la" and "in_range (-180) 180 lo"
    and c: "client_reverse_geocode E la lo = (Inr (PDict kvs), calls)"
    and w: "well_formed (PDict kvs)"
  shows "service_reverse_geocode E la lo = (Inr (reverse_from kvs la lo), calls)"
proof -
  let ?V = "pydantic E"
  from w obtain n sla slo dn where
    k: "map_of kvs ''place_id'' = Some (PInt n)" "map_of kvs ''lat'' = Some (PStr sla)"
       "map_of kvs ''lon'' = Some (PStr slo)" "map_of kvs ''display_name'' = Some (PStr dn)"
    by (auto simp add: is_str_conv is_int_conv)
  from w have o: "opt_str (map_of kvs ''osm_type'')" "opt_int (map_of kvs ''osm_id'')"
    "opt_str (map_of kvs ''class'')" "opt_str (map_of kvs ''type'')"
    "opt_address (map_of kvs ''address'')"
    by simp_all
  from assms(1) w have l: "as_str ?V (case map_of kvs ''licence'' of None \<Rightarrow> PStr [] | Some v \<Rightarrow> v)
      = Some (licence_of (map_of kvs ''licence''))"
    by (auto simp add: is_str_conv lawful_def licence_of_def)
  from assms(1) have v: "as_int ?V (PInt n) = Some n" "as_str ?V (PStr sla) = Some sla"
    "as_str ?V (PStr slo) = Some slo" "as_str ?V (PStr dn) = Some dn"
    by (simp_all add: lawful_def)
  from assms(2,3) have r: "const_le (-90) la" "le_const la 90" "const_le (-180) lo" "le_const lo 180"
    by (simp_all add: in_range_conv)
  show ?thesis
    by (simp add: service_reverse_geocode_def r c new_ReverseGeocodeResponseDTO_def
        build_address_of_wf [OF assms(1) o(5)] reverse_from_def
        k l v optional_str [OF assms(1)] optional_int [OF assms(1)] o)
qed

section \<open>Reverse lookup: the payload decides "not found"\<close>

text \<open>
  Claim C6. When the provider answers a reverse lookup with status 200 and a decoded body
  that has an \<open>error\<close> entry, the operation fails with the 404 error: the content of the
  payload decides, not the HTTP status.
\<close>

theorem error_payload_is_not_found:
  assumes "http_get E (reverse_request (settings E) la lo) = Some resp"
    and "status_code resp = 200" and "json resp = Some (PDict kvs)"
    and "map_of kvs ''error'' = Some v"
  shows "client_reverse_geocode E la lo
           = (Inl (HTTPException 404 (NoAddress la lo)), [reverse_request (settings E) la lo])
         \<and> (in_range (-90) 90 la \<and> in_range (-180) 180 lo \<longrightarrow>
              service_reverse_geocode E la lo
                = (Inl (HTTPException 404 (NoAddress la lo)),
                   [reverse_request (settings E) la lo]))"
proof -
  from client_reverse_ok [OF assms(1-3)] assms(4)
  have c: "client_reverse_geocode E la lo
           = (Inl (HTTPException 404 (NoAddress la lo)), [reverse_request (settings E) la lo])"
    by simp
  then show ?thesis
    by (simp add: service_reverse_geocode_def in_range_conv)
qed

lemma http_get_sample: "http_get (sample_env d) req = Some \<lparr>status_code = 200, json = Some d\<rparr>"
  by (simp add: sample_env_def)

lemma client_reverse_sample:
  "map_of kvs ''error'' = None \<Longrightarrow>
   client_reverse_geocode (sample_env (PDict kvs)) la lo
     = (Inr (PDict kvs), [reverse_request (settings (sample_env (PDict kvs))) la lo])"
  using client_reverse_ok [OF http_get_sample, of "PDict kvs" kvs la lo] by simp

theorem error_payload_is_not_found_witness:
  "service_reverse_geocode (sample_env (PDict [(''error'', PStr (u ''Unable to geocode''))]))
       (Fin 37.4224764) (Fin (-122.0842499))
     = (Inl (HTTPException 404 (NoAddress (Fin 37.4224764) (Fin (-122.0842499)))),
        [reverse_request (settings (sample_env (PDict [(''error'', PStr (u ''Unable to geocode''))])))
           (Fin 37.4224764) (Fin (-122.0842499))])"
proof -
  have r: "in_range (-90) 90 (Fin 37.4224764) \<and> in_range (-180) 180 (Fin (-122.0842499))"
    by (simp add: in_range_def)
  have s: "status_code \<lparr>status_code = 200,
      json = Some (PDict [(''error'', PStr (u ''Unable to geocode''))])\<rparr> = 200" by simp
  have j: "json \<lparr>status_code = 200,
      json = Some (PDict [(''error'', PStr (u ''Unable to geocode''))])\<rparr>
    = Some (PDict [(''error'', PStr (u ''Unable to geocode''))])" by simp
  have m: "map_of [(''error'', PStr (u ''Unable to geocode''))] ''error''
    = Some (PStr (u ''Unable to geocode''))" by simp
  from error_payload_is_not_found [OF http_get_sample s j m, THEN conjunct2, THEN mp, OF r]
  show ?thesis .
qed

section \<open>Reverse lookup: the input coordinates are echoed\<close>

text \<open>
  Claim C8. Every ReverseResult that a reverse lookup returns carries in \<open>lat_input\<close> and
  \<open>lon_input\<close> exactly the latitude and longitude the caller passed, whatever \<open>lat\<close> and
  \<open>lon\<close> texts the provider sent.
\<close>

theorem reverse_echoes_caller_input:
  assumes "service_reverse_geocode E la lo = (Inr r, calls)"
  shows "lat_input r = la \<and> lon_input r = lo"
proof -
  have n: "new_ReverseGeocodeResponseDTO V a1 a2 a3 a4 a5 a6 a7 a8 a9 ad x y = Inr r
      \<Longrightarrow> lat_input r = x \<and> lon_input r = y" for V a1 a2 a3 a4 a5 a6 a7 a8 a9 ad x y
    by (auto simp add: new_ReverseGeocodeResponseDTO_def split: option.splits)
  obtain m calls' where c: "client_reverse_geocode E la lo = (m, calls')"
    by (cases "client_reverse_geocode E la lo")
  from assms c obtain d where d: "m = Inr d"
    by (cases m) (auto simp add: service_reverse_geocode_def split: if_splits)
  from assms c d show ?thesis
    by (auto simp add: service_reverse_geocode_def seq_eq_Inr split: if_splits dest!: n)
qed

lemma wf_sample_kvs: "well_formed (PDict [(''place_id'', PInt 123456), (''licence'', PStr (u ''ODbL 1.0'')),
            (''osm_type'', PStr (u ''way'')), (''osm_id'', PInt 23733659),
            (''lat'', PStr (u ''37.4224764'')), (''lon'', PStr (u ''-122.0842499'')),
            (''display_name'', PStr (u ''1600 Amphitheatre Parkway'')),
            (''class'', PStr (u ''place'')), (''type'', PStr (u ''house'')),
            (''importance'', PFloat (Fin 0.5)), (''address'', sample_address)])"
  using wf_sample by (simp only: sample_record_def)

lemma service_reverse_sample:
  assumes "well_formed (PDict kvs)" and "map_of kvs ''error'' = None"
    and "in_range (-90) 90 la" and "in_range (-180) 180 lo"
  shows "service_reverse_geocode (sample_env (PDict kvs)) la lo
     = (Inr (reverse_from kvs la lo), [reverse_request (settings (sample_env (PDict kvs))) la lo])"
proof -
  have l: "lawful (pydantic (sample_env (PDict kvs)))"
    by (simp only: pydantic_sample lawful_strict)
  from service_reverse_wf [OF l assms(3,4) client_reverse_sample [OF assms(2)] assms(1)]
  show ?thesis .
qed

theorem reverse_echoes_caller_input_witness:
  "\<exists>r calls. service_reverse_geocode (sample_env (sample_record sample_address))
       (Fin 37.42) (Fin (-122.08)) = (Inr r, calls)
     \<and> r_lat r = u ''37.4224764'' \<and> r_lon r = u ''-122.0842499''
     \<and> lat_input r = Fin 37.42 \<and> lon_input r = Fin (-122.08)"
proof -
  have r: "in_range (-90) 90 (Fin 37.42)" "in_range (-180) 180 (Fin (-122.08))"
    by (simp_all add: in_range_def)
  have e: "map_of [(''place_id'', PInt 123456), (''licence'', PStr (u ''ODbL 1.0'')),
            (''osm_type'', PStr (u ''way'')), (''osm_id'', PInt 23733659),
            (''lat'', PStr (u ''37.4224764'')), (''lon'', PStr (u ''-122.0842499'')),
            (''display_name'', PStr (u ''1600 Amphitheatre Parkway'')),
            (''class'', PStr (u ''place'')), (''type'', PStr (u ''house'')),
            (''importance'', PFloat (Fin 0.5)), (''address'', sample_address)] ''error'' = None"
    by simp
  define kvs where "kvs = [(''place_id'', PInt 123456), (''licence'', PStr (u ''ODbL 1.0'')),
            (''osm_type'', PStr (u ''way'')), (''osm_id'', PInt 23733659),
            (''lat'', PStr (u ''37.4224764'')), (''lon'', PStr (u ''-122.0842499'')),
            (''display_name'', PStr (u ''1600 Amphitheatre Parkway'')),
            (''class'', PStr (u ''place'')), (''type'', PStr (u ''house'')),
            (''importance'', PFloat (Fin 0.5)), (''address'', sample_address)]"
  define res where "res = reverse_from kvs (Fin 37.42) (Fin (-122.08))"
  have s: "service_reverse_geocode (sample_env (sample_record sample_address))
       (Fin 37.42) (Fin (-122.08))
     = (Inr res, [reverse_request (settings (sample_env (PDict kvs))) (Fin 37.42) (Fin (-122.08))])"
    unfolding sample_record_def res_def kvs_def
    by (rule service_reverse_sample [OF wf_sample_kvs e r])
  have p: "r_lat res = u ''37.4224764'' \<and> r_lon res = u ''-122.0842499''"
    by (simp add: res_def kvs_def reverse_from_def)
  from reverse_echoes_caller_input [OF s] s p show ?thesis by blast
qed

lemma optional_absent: "optional f PNone = Some None"
  by (simp add: optional_def)

lemma optional_text: "lawful V \<Longrightarrow> optional (as_str V) (PStr s) = Some (Some s)"
  by (simp add: optional_def lawful_def)

lemma new_AddressDTO_Inr:
  assumes "new_AddressDTO V a1 a2 a3 a4 a5 a6 a7 a8 = Inr a"
  shows "optional (as_str V) a1 = Some (house_number a) \<and> optional (as_str V) a2 = Some (road a)
    \<and> optional (as_str V) a3 = Some (neighbourhood a) \<and> optional (as_str V) a4 = Some (city a)
    \<and> optional (as_str V) a5 = Some (state a) \<and> optional (as_str V) a6 = Some (postcode a)
    \<and> optional (as_str V) a7 = Some (country a) \<and> optional (as_str V) a8 = Some (country_code a)"
  using assms by (auto simp add: new_AddressDTO_def split: option.split_asm)

lemma build_address_dto_fields:
  assumes "build_address_dto V (PDict kvs) = Inr a"
  shows "\<forall>(k, f)\<in>set address_fields.
           optional (as_str V) (case map_of kvs k of None \<Rightarrow> PNone | Some v \<Rightarrow> v) = Some (f a)"
proof -
  from assms have "new_AddressDTO V
      (case map_of kvs ''house_number'' of None \<Rightarrow> PNone | Some v \<Rightarrow> v)
      (case map_of kvs ''road'' of None \<Rightarrow> PNone | Some v \<Rightarrow> v)
      (case map_of kvs ''neighbourhood'' of None \<Rightarrow> PNone | Some v \<Rightarrow> v)
      (case map_of kvs ''city'' of None \<Rightarrow> PNone | Some v \<Rightarrow> v)
      (case map_of kvs ''state'' of None \<Rightarrow> PNone | Some v \<Rightarrow> v)
      (case map_of kvs ''postcode'' of None \<Rightarrow> PNone | Some v \<Rightarrow> v)
      (case map_of kvs ''country'' of None \<Rightarrow> PNone | Some v \<Rightarrow> v)
      (case map_of kvs ''country_code'' of None \<Rightarrow> PNone | Some v \<Rightarrow> v) = Inr a"
    by (simp add: build_address_dto_def)
  from new_AddressDTO_Inr [OF this] show ?thesis
    by (simp add: address_fields_def)
qed

section \<open>The Address of a raw address sub-object\<close>

text \<open>
  Claim C9. The Address built from a raw address sub-object takes each of its eight
  fields from the entry of the same name: an entry that holds a text gives that text,
  and a key that is missing gives an absent field, which is neither the empty string nor
  the text \<open>null\<close>. A sub-object whose eight entries are missing, \<open>null\<close> or text is
  always mapped.
\<close>

theorem address_fields_by_name:
  assumes "lawful V"
  shows "(well_formed_address (PDict kvs) \<longrightarrow> (\<exists>a. build_address_dto V (PDict kvs) = Inr a))
    \<and> (\<forall>a. build_address_dto V (PDict kvs) = Inr a \<longrightarrow>
          (\<forall>(k, f)\<in>set address_fields.
             (map_of kvs k = None \<longrightarrow> f a = None \<and> f a \<noteq> Some [] \<and> f a \<noteq> Some (u ''null''))
             \<and> (\<forall>s. map_of kvs k = Some (PStr s) \<longrightarrow> f a = Some s)))"
proof (intro conjI impI allI)
  assume "well_formed_address (PDict kvs)"
  with assms show "\<exists>a. build_address_dto V (PDict kvs) = Inr a"
    by (simp add: build_address_dto_wf)
next
  fix a
  assume b: "build_address_dto V (PDict kvs) = Inr a"
  show "\<forall>(k, f)\<in>set address_fields.
             (map_of kvs k = None \<longrightarrow> f a = None \<and> f a \<noteq> Some [] \<and> f a \<noteq> Some (u ''null''))
             \<and> (\<forall>s. map_of kvs k = Some (PStr s) \<longrightarrow> f a = Some s)"
  proof (clarify, intro conjI impI allI)
    fix k f
    assume kf: "(k, f) \<in> set address_fields"
    with build_address_dto_fields [OF b]
    have o: "optional (as_str V) (case map_of kvs k of None \<Rightarrow> PNone | Some v \<Rightarrow> v) = Some (f a)"
      by blast
    {
      assume "map_of kvs k = None"
      with o show n: "f a = None" by (simp add: optional_absent)
      then show "f a \<noteq> Some []" "f a \<noteq> Some (u ''null'')" by simp_all
    }
    {
      fix s assume "map_of kvs k = Some (PStr s)"
      with o assms show "f a = Some s" by (simp add: optional_text)
    }
  qed
qed

theorem address_fields_by_name_witness:
  "\<exists>a. build_address_dto strict
          (PDict [(''road'', PStr (u ''Amphitheatre Parkway'')), (''city'', PStr (u ''Mountain View''))])
        = Inr a
      \<and> postcode a = None \<and> road a = Some (u ''Amphitheatre Parkway'')"
proof -
  let ?kvs = "[(''road'', PStr (u ''Amphitheatre Parkway'')), (''city'', PStr (u ''Mountain View''))]"
  note T = address_fields_by_name [OF lawful_strict, of ?kvs]
  have w: "well_formed_address (PDict ?kvs)" by (simp add: address_keys_def)
  from T [THEN conjunct1, THEN mp, OF w] obtain a where
    a: "build_address_dto strict (PDict ?kvs) = Inr a" ..
  note F = T [THEN conjunct2, THEN spec, THEN mp, OF a]
  have p: "(''postcode'', postcode) \<in> set address_fields"
    and r: "(''road'', road) \<in> set address_fields"
    by (simp_all add: address_fields_def)
  have mp: "map_of ?kvs ''postcode'' = None"
    and mr: "map_of ?kvs ''road'' = Some (PStr (u ''Amphitheatre Parkway''))" by simp_all
  from F p mp have 1: "postcode a = None" by blast
  from F r mr have 2: "road a = Some (u ''Amphitheatre Parkway'')" by blast
  from a 1 2 show ?thesis by blast
qed

lemma build_address_dto_not_dict:
  "build_address_dto V d = Inr a \<Longrightarrow> \<exists>kvs. d = PDict kvs"
  by (cases d) (simp_all add: build_address_dto_def)

lemma build_address_of_has_address:
  assumes "build_address_of V d = Inr a"
  shows "a \<noteq> None \<longleftrightarrow> has_address d"
proof (cases d)
  case (PDict kvs)
  show ?thesis
  proof (cases "map_of kvs ''address''")
    case None
    with assms PDict show ?thesis by (simp add: build_address_of_def)
  next
    case (Some v)
    show ?thesis
    proof (cases "truthy v")
      case False
      with assms PDict Some have "a = None" by (simp add: build_address_of_def)
      moreover from False have "\<not> (\<exists>x. v = PDict x \<and> x \<noteq> [])" by auto
      ultimately show ?thesis using PDict Some by (auto split: pyval.splits)
    next
      case True
      with assms PDict Some obtain dto where
        dto: "build_address_dto V v = Inr dto" "a = Some dto"
        by (auto simp add: build_address_of_def seq_eq_Inr)
      from build_address_dto_not_dict [OF dto(1)] obtain x where "v = PDict x" ..
      with True dto(2) PDict Some show ?thesis by simp
    qed
  qed
qed (use assms in \<open>simp_all add: build_address_of_def\<close>)

lemma new_LocationDTO_address:
  "new_LocationDTO V a1 a2 a3 a4 a5 a6 a7 a8 a9 a10 ad = Inr l \<Longrightarrow> address l = ad"
  by (auto simp add: new_LocationDTO_def split: option.split_asm)

lemma new_ReverseGeocodeResponseDTO_address:
  "new_ReverseGeocodeResponseDTO V a1 a2 a3 a4 a5 a6 a7 a8 a9 ad x y = Inr r \<Longrightarrow> r_address r = ad"
  by (auto simp add: new_ReverseGeocodeResponseDTO_def split: option.split_asm)

lemma build_location_dto_address:
  "build_location_dto V d = Inr l \<Longrightarrow> build_address_of V d = Inr (address l)"
  by (auto simp add: build_location_dto_def seq_eq_Inr dest!: new_LocationDTO_address)

lemma service_reverse_address:
  assumes "service_reverse_geocode E la lo = (Inr r, calls)"
  shows "\<exists>d. client_reverse_geocode E la lo = (Inr d, calls)
           \<and> build_address_of (pydantic E) d = Inr (r_address r)"
proof -
  obtain m calls' where c: "client_reverse_geocode E la lo = (m, calls')"
    by (cases "client_reverse_geocode E la lo")
  from assms c obtain d where d: "m = Inr d"
    by (cases m) (auto simp add: service_reverse_geocode_def split: if_splits)
  from assms c d show ?thesis
    by (auto simp add: service_reverse_geocode_def seq_eq_Inr split: if_splits
        dest!: new_ReverseGeocodeResponseDTO_address)
qed

section \<open>An empty address sub-object gives no Address\<close>

text \<open>
  Claim C10. In the search mapping and in the reverse mapping alike, the result embeds an
  Address exactly when the raw record has an \<open>address\<close> entry that is a non-empty
  sub-object. In particular a raw record whose \<open>address\<close> is the empty object gives a
  result without Address, not an Address whose fields are all absent.
\<close>

theorem address_only_when_non_empty:
  "(\<forall>l. build_location_dto V d = Inr l \<longrightarrow> (address l \<noteq> None \<longleftrightarrow> has_address d))
   \<and> (\<forall>r calls d'. service_reverse_geocode E la lo = (Inr r, calls)
          \<and> client_reverse_geocode E la lo = (Inr d', calls)
        \<longrightarrow> (r_address r \<noteq> None \<longleftrightarrow> has_address d'))"
proof (intro conjI allI impI)
  fix l
  assume "build_location_dto V d = Inr l"
  from build_address_of_has_address [OF build_location_dto_address [OF this]]
  show "address l \<noteq> None \<longleftrightarrow> has_address d" .
next
  fix r calls d'
  assume a: "service_reverse_geocode E la lo = (Inr r, calls)
          \<and> client_reverse_geocode E la lo = (Inr d', calls)"
  with service_reverse_address [of E la lo r calls]
  have "build_address_of (pydantic E) d' = Inr (r_address r)" by auto
  from build_address_of_has_address [OF this]
  show "r_address r \<noteq> None \<longleftrightarrow> has_address d'" .
qed

lemma wf_sample_empty_address: "well_formed (sample_record (PDict []))"
  by (simp add: sample_record_def address_keys_def)

theorem address_only_when_non_empty_witness:
  "(\<exists>l. build_location_dto strict (sample_record (PDict [])) = Inr l \<and> address l = None)
   \<and> (\<exists>l. build_location_dto strict (sample_record sample_address) = Inr l \<and> address l \<noteq> None)
   \<and> (\<exists>r calls. service_reverse_geocode (sample_env (sample_record (PDict []))) (Fin 1) (Fin 2)
          = (Inr r, calls) \<and> r_address r = None)"
proof -
  let ?E = "sample_env (sample_record (PDict []))"
  have h0: "\<not> has_address (sample_record (PDict []))"
    by (simp add: sample_record_def)
  have h1: "has_address (sample_record sample_address)"
    by (simp add: sample_record_def sample_address_def)
  obtain kvs0 where k0: "sample_record (PDict []) = PDict kvs0"
    by (simp add: sample_record_def)
  obtain kvs1 where k1: "sample_record sample_address = PDict kvs1"
    by (simp add: sample_record_def)
  from build_location_dto_wf [OF lawful_strict, of kvs0] wf_sample_empty_address k0
  obtain l0 where l0: "build_location_dto strict (sample_record (PDict [])) = Inr l0" by simp
  from build_location_dto_wf [OF lawful_strict, of kvs1] wf_sample k1
  obtain l1 where l1: "build_location_dto strict (sample_record sample_address) = Inr l1" by simp
  note A = address_only_when_non_empty [of strict "sample_record (PDict [])" ?E "Fin 1" "Fin 2",
      THEN conjunct1, THEN spec, THEN mp, OF l0]
  note B = address_only_when_non_empty [of strict "sample_record sample_address" ?E "Fin 1" "Fin 2",
      THEN conjunct1, THEN spec, THEN mp, OF l1]
  from A h0 have a0: "address l0 = None" by blast
  from B h1 have a1: "address l1 \<noteq> None" by blast
  have e: "map_of kvs0 ''error'' = None"
    using k0 by (auto simp add: sample_record_def)
  have r: "in_range (-90) 90 (Fin 1)" "in_range (-180) 180 (Fin 2)"
    by (simp_all add: in_range_def)
  from wf_sample_empty_address k0 have w: "well_formed (PDict kvs0)" by simp
  note s = service_reverse_sample [OF w e r]
  note c = client_reverse_sample [OF e, of "Fin 1" "Fin 2"]
  from s c k0 have sc: "service_reverse_geocode ?E (Fin 1) (Fin 2)
        = (Inr (reverse_from kvs0 (Fin 1) (Fin 2)),
           [reverse_request (settings ?E) (Fin 1) (Fin 2)])
      \<and> client_reverse_geocode ?E (Fin 1) (Fin 2)
        = (Inr (sample_record (PDict [])), [reverse_request (settings ?E) (Fin 1) (Fin 2)])"
    by simp
  note C = address_only_when_non_empty [of strict "sample_record (PDict [])" ?E "Fin 1" "Fin 2",
      THEN conjunct2, THEN spec, THEN spec, THEN spec, THEN mp, OF sc]
  from C h0 have a2: "r_address (reverse_from kvs0 (Fin 1) (Fin 2)) = None" by blast
  from l0 a0 l1 a1 sc a2 show ?thesis by blast
qed

section \<open>Search endpoint: a limit out of range\<close>

text \<open>
  Claim C3, as the code has it. A GET search request whose \<open>limit\<close> is an integer
  outside 1..50 is rejected by the parameter validation: the response is the one built by
  \<open>validation_exception_handler\<close>, its status is 422 (not 400), and no request is sent
  to the provider.
\<close>

theorem limit_out_of_range_is_422:
  assumes "n < 1 \<or> 50 < n"
  shows "controller_search_address E q (Some n)
           = (validation_exception_handler (check_q q @ check_limit (Some n)), [])
         \<and> status (fst (controller_search_address E q (Some n))) = 422"
proof -
  from assms have "check_limit (Some n) \<noteq> []"
    by (auto simp add: check_limit_def)
  then have "check_q q @ check_limit (Some n) \<noteq> []" by simp
  then have "controller_search_address E q (Some n)
           = (validation_exception_handler (check_q q @ check_limit (Some n)), [])"
    by (cases "check_q q @ check_limit (Some n)")
       (simp_all add: controller_search_address_def)
  then show ?thesis by (simp add: validation_exception_handler_def)
qed

theorem limit_out_of_range_is_422_witness:
  "status (fst (controller_search_address (sample_env (PList [])) (Some [97]) (Some 51))) = 422"
proof -
  have "(51::int) < 1 \<or> 50 < (51::int)" by simp
  from limit_out_of_range_is_422 [OF this, of "sample_env (PList [])" "Some [97]"]
  show ?thesis by (rule conjunct2)
qed

text \<open>Claim C3 as stated fails: with \<open>limit = 0\<close> the status is 422, and 422 is not 400.\<close>

theorem limit_out_of_range_counterexample:
  "status (fst (controller_search_address (sample_env (PList [])) (Some [97]) (Some 0))) = 422
   \<and> status (fst (controller_search_address (sample_env (PList [])) (Some [97]) (Some 0))) \<noteq> 400"
  by (simp add: controller_search_address_def check_q_def check_limit_def
      validation_exception_handler_def)

lemma raises_internal_conv: "raises internal m \<longleftrightarrow> no_http m \<and> (\<forall>x. m \<noteq> Inr x)"
  by (cases m) (simp_all add: no_http_def)

lemma py_getitem_Inr: "py_getitem (PDict kvs) k = Inr v \<longleftrightarrow> map_of kvs k = Some v"
  by (simp split: option.splits)

lemma build_location_dto_required:
  assumes "build_location_dto V (PDict kvs) = Inr l"
  shows "\<forall>k\<in>set required_keys. map_of kvs k \<noteq> None"
  using assms
  by (auto simp add: build_location_dto_def seq_eq_Inr py_getitem_Inr required_keys_def
      simp del: py_getitem.simps)

lemma build_location_dto_licence:
  assumes "lawful V" and "map_of kvs ''licence'' = None"
    and "build_location_dto V (PDict kvs) = Inr l"
  shows "licence l = []"
proof -
  have n: "new_LocationDTO V a1 (PStr []) a3 a4 a5 a6 a7 a8 a9 a10 ad = Inr l
      \<Longrightarrow> licence l = []" for a1 a3 a4 a5 a6 a7 a8 a9 a10 ad
    using assms(1)
    by (auto simp add: new_LocationDTO_def lawful_def split: option.split_asm)
  from assms(2,3) show ?thesis
    by (auto simp add: build_location_dto_def seq_eq_Inr dest!: n)
qed

lemma service_reverse_tail:
  assumes "in_range (-90) 90 la" and "in_range (-180) 180 lo"
    and "client_reverse_geocode E la lo = (Inr d, calls)"
  shows "service_reverse_geocode E la lo =
     (seq (build_address_of (pydantic E) d) (\<lambda>addr.
                 seq (py_getitem d ''place_id'') (\<lambda>a_place_id.
                 seq (py_get_default d ''licence'' (PStr [])) (\<lambda>a_licence.
                 seq (py_get d ''osm_type'') (\<lambda>a_osm_type.
                 seq (py_get d ''osm_id'') (\<lambda>a_osm_id.
                 seq (py_getitem d ''lat'') (\<lambda>a_lat.
                 seq (py_getitem d ''lon'') (\<lambda>a_lon.
                 seq (py_getitem d ''display_name'') (\<lambda>a_display_name.
                 seq (py_get d ''class'') (\<lambda>a_class.
                 seq (py_get d ''type'') (\<lambda>a_type.
                 new_ReverseGeocodeResponseDTO (pydantic E) a_place_id a_licence a_osm_type
                   a_osm_id a_lat a_lon a_display_name a_class a_type addr la lo)))))))))),
      calls)"
  using assms by (simp add: service_reverse_geocode_def in_range_conv)

lemma reverse_required:
  assumes "in_range (-90) 90 la" and "in_range (-180) 180 lo"
    and "client_reverse_geocode E la lo = (Inr (PDict kvs), calls)"
    and "service_reverse_geocode E la lo = (Inr r, c)"
  shows "\<forall>k\<in>set required_keys. map_of kvs k \<noteq> None"
  using assms(4) unfolding service_reverse_tail [OF assms(1-3)]
  by (auto simp add: seq_eq_Inr py_getitem_Inr required_keys_def simp del: py_getitem.simps)

lemma reverse_licence:
  assumes "in_range (-90) 90 la" and "in_range (-180) 180 lo"
    and "client_reverse_geocode E la lo = (Inr (PDict kvs), calls)"
    and "service_reverse_geocode E la lo = (Inr r, c)"
    and "lawful (pydantic E)" and "map_of kvs ''licence'' = None"
  shows "r_licence r = []"
proof -
  have n: "new_ReverseGeocodeResponseDTO (pydantic E) a1 (PStr []) a3 a4 a5 a6 a7 a8 a9 ad x y = Inr r
      \<Longrightarrow> r_licence r = []" for a1 a3 a4 a5 a6 a7 a8 a9 ad x y
    using assms(5)
    by (auto simp add: new_ReverseGeocodeResponseDTO_def lawful_def split: option.split_asm)
  from assms(4,6) show ?thesis unfolding service_reverse_tail [OF assms(1-3)]
    by (auto simp add: seq_eq_Inr dest!: n)
qed

section \<open>Round trip of the optional entries\<close>

text \<open>
  Claim C4, as the code has it. For a raw record that has every entry of a Location with
  a value of the field's type and whose \<open>address\<close> is a non-empty sub-object with
  textual entries, the Location built from it has every one of these values unchanged,
  the value of \<open>class\<close> under the name \<open>class_type\<close>, and as its address the Address of
  the eight named entries of the sub-object.
\<close>

theorem all_entries_reproduced:
  assumes "lawful V"
    and "map_of kvs ''place_id'' = Some (PInt n)" and "map_of kvs ''licence'' = Some (PStr li)"
    and "map_of kvs ''osm_type'' = Some (PStr ot)" and "map_of kvs ''osm_id'' = Some (PInt oi)"
    and "map_of kvs ''lat'' = Some (PStr la)" and "map_of kvs ''lon'' = Some (PStr lo)"
    and "map_of kvs ''display_name'' = Some (PStr dn)"
    and "map_of kvs ''class'' = Some (PStr c)" and "map_of kvs ''type'' = Some (PStr t)"
    and "map_of kvs ''importance'' = Some (PFloat i)"
    and "map_of kvs ''address'' = Some (PDict a)" and "a \<noteq> []"
    and "well_formed_address (PDict a)"
  shows "build_location_dto V (PDict kvs) =
     Inr \<lparr>place_id = n, licence = li, osm_type = Some ot, osm_id = Some oi, lat = la, lon = lo,
          display_name = dn, class_type = Some c, type = Some t, importance = Some i,
          address = Some (address_from a)\<rparr>"
proof -
  from assms(2-12,14) have "well_formed (PDict kvs)" by simp
  from build_location_dto_wf [OF assms(1) this] assms(2-13) show ?thesis
    by (simp add: location_from_def licence_of_def)
qed

theorem all_entries_reproduced_witness:
  "build_location_dto strict (sample_record sample_address) =
     Inr \<lparr>place_id = 123456, licence = u ''ODbL 1.0'', osm_type = Some (u ''way''),
          osm_id = Some 23733659, lat = u ''37.4224764'', lon = u ''-122.0842499'',
          display_name = u ''1600 Amphitheatre Parkway'', class_type = Some (u ''place''),
          type = Some (u ''house''), importance = Some (Fin 0.5),
          address = Some \<lparr>house_number = Some (u ''1600''),
            road = Some (u ''Amphitheatre Parkway''), neighbourhood = Some (u ''North Bayshore''),
            city = Some (u ''Mountain View''), state = Some (u ''California''),
            postcode = Some (u ''94043''), country = Some (u ''United States''),
            country_code = Some (u ''us'')\<rparr>\<rparr>"
proof -
  define a where "a = [(''house_number'', PStr (u ''1600'')), (''road'', PStr (u ''Amphitheatre Parkway'')),
            (''neighbourhood'', PStr (u ''North Bayshore'')),
            (''city'', PStr (u ''Mountain View'')), (''state'', PStr (u ''California'')),
            (''postcode'', PStr (u ''94043'')), (''country'', PStr (u ''United States'')),
            (''country_code'', PStr (u ''us''))]"
  define kvs where "kvs = [(''place_id'', PInt 123456), (''licence'', PStr (u ''ODbL 1.0'')),
            (''osm_type'', PStr (u ''way'')), (''osm_id'', PInt 23733659),
            (''lat'', PStr (u ''37.4224764'')), (''lon'', PStr (u ''-122.0842499'')),
            (''display_name'', PStr (u ''1600 Amphitheatre Parkway'')),
            (''class'', PStr (u ''place'')), (''type'', PStr (u ''house'')),
            (''importance'', PFloat (Fin 0.5)), (''address'', PDict a)]"
  have s: "sample_record sample_address = PDict kvs"
    by (simp add: sample_record_def sample_address_def kvs_def a_def)
  have k: "map_of kvs ''place_id'' = Some (PInt 123456)"
    "map_of kvs ''licence'' = Some (PStr (u ''ODbL 1.0''))"
    "map_of kvs ''osm_type'' = Some (PStr (u ''way''))"
    "map_of kvs ''osm_id'' = Some (PInt 23733659)"
    "map_of kvs ''lat'' = Some (PStr (u ''37.4224764''))"
    "map_of kvs ''lon'' = Some (PStr (u ''-122.0842499''))"
    "map_of kvs ''display_name'' = Some (PStr (u ''1600 Amphitheatre Parkway''))"
    "map_of kvs ''class'' = Some (PStr (u ''place''))"
    "map_of kvs ''type'' = Some (PStr (u ''house''))"
    "map_of kvs ''importance'' = Some (PFloat (Fin 0.5))"
    "map_of kvs ''address'' = Some (PDict a)"
    by (simp_all add: kvs_def)
  have ne: "a \<noteq> []" by (simp add: a_def)
  have w: "well_formed_address (PDict a)" by (simp add: a_def address_keys_def)
  have f: "address_from a = \<lparr>house_number = Some (u ''1600''),
            road = Some (u ''Amphitheatre Parkway''), neighbourhood = Some (u ''North Bayshore''),
            city = Some (u ''Mountain View''), state = Some (u ''California''),
            postcode = Some (u ''94043''), country = Some (u ''United States''),
            country_code = Some (u ''us'')\<rparr>"
    by (simp add: address_from_def a_def)
  from all_entries_reproduced [OF lawful_strict k ne w] show ?thesis
    by (simp only: s f)
qed

text \<open>
  Claim C4 as stated fails when the \<open>address\<close> entry is the empty object: the record has
  all optional entries, and the Location has no address.
\<close>

theorem empty_address_counterexample:
  "build_location_dto strict
     (PDict [(''place_id'', PInt 7), (''licence'', PStr [79]), (''osm_type'', PStr [119]),
             (''osm_id'', PInt 8), (''lat'', PStr [49]), (''lon'', PStr [50]),
             (''display_name'', PStr [72]), (''class'', PStr [112]), (''type'', PStr [104]),
             (''importance'', PFloat (Fin 0.5)), (''address'', PDict [])])
   = Inr \<lparr>place_id = 7, licence = [79], osm_type = Some [119], osm_id = Some 8, lat = [49],
          lon = [50], display_name = [72], class_type = Some [112], type = Some [104],
          importance = Some (Fin 0.5), address = None\<rparr>"
  by (simp add: build_location_dto_wf [OF lawful_strict] location_from_def licence_of_def
      address_keys_def)

lemma build_locations_map:
  assumes "lawful V" and "\<forall>kvs\<in>set ks. well_formed (PDict kvs)"
  shows "build_locations V (map PDict ks) = Inr (map location_from ks)"
  using assms(2)
proof (induction ks)
  case Nil
  then show ?case by simp
next
  case (Cons kvs ks)
  then have "build_location_dto V (PDict kvs) = Inr (location_from kvs)"
    using assms(1) by (simp add: build_location_dto_wf)
  with Cons show ?case by simp
qed

section \<open>Search: the records of the provider, mapped in order\<close>

text \<open>
  Claim C1. For a query that is not empty once trimmed and a limit between 1 and 50, when
  the upstream client returns \<open>N \<ge> 1\<close> well-formed raw records, \<open>search_address\<close>
  returns a response whose \<open>total\<close> is \<open>N\<close>, whose \<open>results\<close> are the Locations of the
  records (\<open>location_from\<close> of each), one by one and in the order of the provider, and
  whose \<open>query\<close> is the trimmed input.
\<close>

theorem search_maps_records_in_order:
  assumes "lawful (pydantic E)" and "strip q \<noteq> []" and "1 \<le> limit" and "limit \<le> 50"
    and "client_search_address E (strip q) limit = (Inr (map PDict ks), calls)"
    and "ks \<noteq> []" and "\<forall>kvs\<in>set ks. well_formed (PDict kvs)"
  shows "service_search_address E q limit =
            (Inr \<lparr>results = map location_from ks, total = int (length ks), query = strip q\<rparr>,
             calls)"
  using assms(2,5,6) build_locations_map [OF assms(1,7)]
  by (simp add: service_search_address_def Let_def)

lemma location_from_sample:
  "location_from [(''place_id'', PInt 123456), (''licence'', PStr (u ''ODbL 1.0'')),
            (''osm_type'', PStr (u ''way'')), (''osm_id'', PInt 23733659),
            (''lat'', PStr (u ''37.4224764'')), (''lon'', PStr (u ''-122.0842499'')),
            (''display_name'', PStr (u ''1600 Amphitheatre Parkway'')),
            (''class'', PStr (u ''place'')), (''type'', PStr (u ''house'')),
            (''importance'', PFloat (Fin 0.5)), (''address'', sample_address)]
   = \<lparr>place_id = 123456, licence = u ''ODbL 1.0'', osm_type = Some (u ''way''),
      osm_id = Some 23733659, lat = u ''37.4224764'', lon = u ''-122.0842499'',
      display_name = u ''1600 Amphitheatre Parkway'', class_type = Some (u ''place''),
      type = Some (u ''house''), importance = Some (Fin 0.5),
      address = Some \<lparr>house_number = Some (u ''1600''),
        road = Some (u ''Amphitheatre Parkway''), neighbourhood = Some (u ''North Bayshore''),
        city = Some (u ''Mountain View''), state = Some (u ''California''),
        postcode = Some (u ''94043''), country = Some (u ''United States''),
        country_code = Some (u ''us'')\<rparr>\<rparr>"
  by (simp add: location_from_def licence_of_def sample_address_def address_from_def)

lemma location_from_bare:
  "location_from [(''place_id'', PInt 7), (''lat'', PStr (u ''1.5'')), (''lon'', PStr (u ''2.5'')),
            (''display_name'', PStr (u ''Somewhere''))]
   = \<lparr>place_id = 7, licence = [], osm_type = None, osm_id = None, lat = u ''1.5'',
      lon = u ''2.5'', display_name = u ''Somewhere'', class_type = None, type = None,
      importance = None, address = None\<rparr>"
  by (simp add: location_from_def licence_of_def)

theorem search_maps_records_in_order_witness:
  "service_search_address (sample_env (PList [sample_record sample_address, bare_record]))
           (u ''  Mountain View '') 2 =
     (Inr \<lparr>results =
             [\<lparr>place_id = 123456, licence = u ''ODbL 1.0'', osm_type = Some (u ''way''),
               osm_id = Some 23733659, lat = u ''37.4224764'', lon = u ''-122.0842499'',
               display_name = u ''1600 Amphitheatre Parkway'', class_type = Some (u ''place''),
               type = Some (u ''house''), importance = Some (Fin 0.5),
               address = Some \<lparr>house_number = Some (u ''1600''),
                 road = Some (u ''Amphitheatre Parkway''),
                 neighbourhood = Some (u ''North Bayshore''),
                 city = Some (u ''Mountain View''), state = Some (u ''California''),
                 postcode = Some (u ''94043''), country = Some (u ''United States''),
                 country_code = Some (u ''us'')\<rparr>\<rparr>,
              \<lparr>place_id = 7, licence = [], osm_type = None, osm_id = None, lat = u ''1.5'',
               lon = u ''2.5'', display_name = u ''Somewhere'', class_type = None, type = None,
               importance = None, address = None\<rparr>],
           total = 2, query = u ''Mountain View''\<rparr>,
      [search_request (settings (sample_env (PList [sample_record sample_address, bare_record])))
         (u ''Mountain View'') 2])"
proof -
  define k1 where "k1 = [(''place_id'', PInt 123456), (''licence'', PStr (u ''ODbL 1.0'')),
            (''osm_type'', PStr (u ''way'')), (''osm_id'', PInt 23733659),
            (''lat'', PStr (u ''37.4224764'')), (''lon'', PStr (u ''-122.0842499'')),
            (''display_name'', PStr (u ''1600 Amphitheatre Parkway'')),
            (''class'', PStr (u ''place'')), (''type'', PStr (u ''house'')),
            (''importance'', PFloat (Fin 0.5)), (''address'', sample_address)]"
  define k2 where "k2 = [(''place_id'', PInt 7), (''lat'', PStr (u ''1.5'')),
            (''lon'', PStr (u ''2.5'')), (''display_name'', PStr (u ''Somewhere''))]"
  let ?rs = "[sample_record sample_address, bare_record]"
  let ?E = "sample_env (PList ?rs)"
  let ?q = "u ''  Mountain View ''"
  have rs: "?rs = map PDict [k1, k2]"
    by (simp add: sample_record_def bare_record_def k1_def k2_def)
  have h1: "lawful (pydantic ?E)" by (simp only: pydantic_sample lawful_strict)
  have h2: "strip ?q \<noteq> []" by (simp only: strip_sample) (simp add: u_def)
  have h5: "client_search_address ?E (strip ?q) 2
      = (Inr (map PDict [k1, k2]), [search_request (settings ?E) (strip ?q) 2])"
    unfolding rs [symmetric] by (rule client_search_sample)
  have h6: "[k1, k2] \<noteq> []" by simp
  have w1: "well_formed (PDict k1)" using wf_sample by (simp only: sample_record_def k1_def)
  have w2: "well_formed (PDict k2)" using wf_bare by (simp only: bare_record_def k2_def)
  have h7: "\<forall>kvs\<in>set [k1, k2]. well_formed (PDict kvs)" using w1 w2 by simp
  have "(1::int) \<le> 2" "(2::int) \<le> 50" by simp_all
  note T = search_maps_records_in_order [OF h1 h2 this h5 h6 h7]
  have l1: "location_from k1 = \<lparr>place_id = 123456, licence = u ''ODbL 1.0'', osm_type = Some (u ''way''),
      osm_id = Some 23733659, lat = u ''37.4224764'', lon = u ''-122.0842499'',
      display_name = u ''1600 Amphitheatre Parkway'', class_type = Some (u ''place''),
      type = Some (u ''house''), importance = Some (Fin 0.5),
      address = Some \<lparr>house_number = Some (u ''1600''),
        road = Some (u ''Amphitheatre Parkway''), neighbourhood = Some (u ''North Bayshore''),
        city = Some (u ''Mountain View''), state = Some (u ''California''),
        postcode = Some (u ''94043''), country = Some (u ''United States''),
        country_code = Some (u ''us'')\<rparr>\<rparr>"
    unfolding k1_def by (rule location_from_sample)
  have l2: "location_from k2 = \<lparr>place_id = 7, licence = [], osm_type = None, osm_id = None,
      lat = u ''1.5'', lon = u ''2.5'', display_name = u ''Somewhere'', class_type = None,
      type = None, importance = None, address = None\<rparr>"
    unfolding k2_def by (rule location_from_bare)
  have len: "int (length [k1, k2]) = 2" by simp
  from T show ?thesis
    by (simp only: strip_sample list.map l1 l2 len)
qed

lemma build_locations_each:
  assumes "build_locations V rs = Inr ls" and "r \<in> set rs"
  shows "\<exists>l. build_location_dto V r = Inr l"
proof -
  from assms(1) have "map (build_location_dto V) rs = map Inr ls"
    by (simp add: build_locations_conv)
  moreover from assms(2) have "build_location_dto V r \<in> set (map (build_location_dto V) rs)"
    by simp
  ultimately have "build_location_dto V r \<in> set (map Inr ls)" by simp
  then show ?thesis by auto
qed

lemma internal_status_500:
  "internal e \<Longrightarrow>
   (case (Inl e :: error + 'a, calls) of
      (Inr x, calls) \<Rightarrow> (\<lparr>status = 200, body = f x\<rparr>, calls)
    | (Inl (HTTPException code d), calls) \<Rightarrow> (\<lparr>status = code, body = DetailContent d\<rparr>, calls)
    | (Inl _, calls) \<Rightarrow> (\<lparr>status = 500, body = ServerErrorContent\<rparr>, calls))
   = (\<lparr>status = 500, body = ServerErrorContent\<rparr>, calls)"
  by (cases e) simp_all

lemma search_fails_on_missing_entry:
  assumes "k \<in> set required_keys" and "map_of kvs k = None"
    and "strip q \<noteq> []" and "client_search_address E (strip q) n = (Inr rs, calls)"
    and "PDict kvs \<in> set rs"
  shows "\<exists>e. service_search_address E q n = (Inl e, calls) \<and> internal e"
proof -
  from assms(5) have ne: "rs \<noteq> []" by auto
  have "\<forall>ls. build_locations (pydantic E) rs \<noteq> Inr ls"
  proof (intro allI notI)
    fix ls assume "build_locations (pydantic E) rs = Inr ls"
    from build_locations_each [OF this assms(5)] obtain l where
      "build_location_dto (pydantic E) (PDict kvs) = Inr l" ..
    from build_location_dto_required [OF this] assms(1,2) show False by blast
  qed
  then obtain e where e: "build_locations (pydantic E) rs = Inl e"
    by (cases "build_locations (pydantic E) rs") auto
  have "no_http (build_locations (pydantic E) rs)" by simp
  with e have "internal e" by (simp add: no_http_def)
  moreover from assms(3,4) ne e have "service_search_address E q n = (Inl e, calls)"
    by (simp add: service_search_address_def Let_def)
  ultimately show ?thesis by blast
qed

lemma controller_search_500:
  assumes "service_search_address E q (case lp of None \<Rightarrow> 10 | Some m \<Rightarrow> m) = (Inl e, calls)"
    and "internal e" and "check_limit lp = []"
  shows "controller_search_address E (Some q) lp
           = (\<lparr>status = 500, body = ServerErrorContent\<rparr>, calls)"
  using assms(1,3) internal_status_500 [OF assms(2), where f = SearchContent and calls = calls]
  by (simp add: controller_search_address_def check_q_def)

lemma reverse_fails_on_missing_entry:
  assumes "k \<in> set required_keys" and "map_of kvs k = None"
    and "in_range (-90) 90 la" and "in_range (-180) 180 lo"
    and "client_reverse_geocode E la lo = (Inr (PDict kvs), calls)"
  shows "\<exists>e. service_reverse_geocode E la lo = (Inl e, calls) \<and> internal e"
proof -
  note t = service_reverse_tail [OF assms(3,4,5)]
  obtain m where m: "service_reverse_geocode E la lo = (m, calls)"
    using t by simp
  have "no_http m" using t m reverse_tail_no_http [of "pydantic E" "PDict kvs" la lo]
    by simp
  moreover have "\<forall>r. m \<noteq> Inr r"
    using reverse_required [OF assms(3,4,5)] m assms(1,2) by blast
  ultimately obtain e where "m = Inl e" "internal e"
    by (cases m) (auto simp add: no_http_def)
  with m show ?thesis by blast
qed

lemma controller_reverse_500:
  assumes "service_reverse_geocode E la lo = (Inl e, calls)"
    and "internal e" and "in_range (-90) 90 la" and "in_range (-180) 180 lo"
  shows "controller_reverse_geocode E (Some la) (Some lo)
           = (\<lparr>status = 500, body = ServerErrorContent\<rparr>, calls)"
proof -
  from assms(3,4) have "check_lat (Some la) = []" "check_lon (Some lo) = []"
    by (simp_all add: check_lat_def check_lon_def in_range_conv)
  with assms(1) internal_status_500 [OF assms(2), where f = ReverseContent and calls = calls]
  show ?thesis by (simp add: controller_reverse_geocode_def)
qed

section \<open>Required entries of a raw record\<close>

text \<open>
  Claim C2, as the code has it. In the mapping to a Location and in the mapping to a
  ReverseResult, the entries \<open>place_id\<close>, \<open>lat\<close>, \<open>lon\<close> and \<open>display_name\<close> are
  mandatory: when one of them is missing from a raw record, no record is built from it,
  the whole search or reverse lookup fails, and the request is answered with the
  internal-class status 500. \<open>licence\<close> is not mandatory in the raw record: when it is
  missing, the record is built with the empty text as its licence.
\<close>

theorem required_entries_mandatory_licence_defaulted:
  "(\<forall>k\<in>set required_keys. map_of kvs k = None \<longrightarrow>
       raises internal (build_location_dto V (PDict kvs))
       \<and> (strip q \<noteq> [] \<and> client_search_address E (strip q) n = (Inr rs, calls)
            \<and> PDict kvs \<in> set rs \<longrightarrow>
            (\<exists>e. service_search_address E q n = (Inl e, calls) \<and> internal e)
            \<and> (\<forall>lp. check_limit lp = [] \<and> (case lp of None \<Rightarrow> 10 | Some m \<Rightarrow> m) = n \<longrightarrow>
                  controller_search_address E (Some q) lp
                    = (\<lparr>status = 500, body = ServerErrorContent\<rparr>, calls)))
       \<and> (in_range (-90) 90 la \<and> in_range (-180) 180 lo
            \<and> client_reverse_geocode E la lo = (Inr (PDict kvs), calls') \<longrightarrow>
            (\<exists>e. service_reverse_geocode E la lo = (Inl e, calls') \<and> internal e)
            \<and> controller_reverse_geocode E (Some la) (Some lo)
                  = (\<lparr>status = 500, body = ServerErrorContent\<rparr>, calls')))
   \<and> (lawful V \<and> map_of kvs ''licence'' = None \<longrightarrow>
        (\<forall>l. build_location_dto V (PDict kvs) = Inr l \<longrightarrow> licence l = []))
   \<and> (lawful (pydantic E) \<and> map_of kvs ''licence'' = None
        \<and> in_range (-90) 90 la \<and> in_range (-180) 180 lo
        \<and> client_reverse_geocode E la lo = (Inr (PDict kvs), calls') \<longrightarrow>
        (\<forall>r c. service_reverse_geocode E la lo = (Inr r, c) \<longrightarrow> r_licence r = []))"
proof (intro conjI ballI impI allI)
  fix k
  assume "k \<in> set required_keys" and "map_of kvs k = None"
  with build_location_dto_required [of V kvs]
  have "\<forall>l. build_location_dto V (PDict kvs) \<noteq> Inr l" by blast
  then show "raises internal (build_location_dto V (PDict kvs))"
    by (simp add: raises_internal_conv)
next
  fix k
  assume k: "k \<in> set required_keys" "map_of kvs k = None"
    and a: "strip q \<noteq> [] \<and> client_search_address E (strip q) n = (Inr rs, calls)
            \<and> PDict kvs \<in> set rs"
  from a search_fails_on_missing_entry [OF k, of q E n rs calls]
  show "\<exists>e. service_search_address E q n = (Inl e, calls) \<and> internal e" by blast
next
  fix k lp
  assume k: "k \<in> set required_keys" "map_of kvs k = None"
    and a: "strip q \<noteq> [] \<and> client_search_address E (strip q) n = (Inr rs, calls)
            \<and> PDict kvs \<in> set rs"
    and l: "check_limit lp = [] \<and> (case lp of None \<Rightarrow> 10 | Some m \<Rightarrow> m) = n"
  from a search_fails_on_missing_entry [OF k, of q E n rs calls]
  obtain e where e: "service_search_address E q n = (Inl e, calls)" "internal e" by blast
  from l e(1) have "service_search_address E q (case lp of None \<Rightarrow> 10 | Some m \<Rightarrow> m)
      = (Inl e, calls)" by simp
  from controller_search_500 [OF this e(2)] l
  show "controller_search_address E (Some q) lp
          = (\<lparr>status = 500, body = ServerErrorContent\<rparr>, calls)" by blast
next
  fix k
  assume k: "k \<in> set required_keys" "map_of kvs k = None"
    and a: "in_range (-90) 90 la \<and> in_range (-180) 180 lo
            \<and> client_reverse_geocode E la lo = (Inr (PDict kvs), calls')"
  from a reverse_fails_on_missing_entry [OF k, of la lo E calls']
  show "\<exists>e. service_reverse_geocode E la lo = (Inl e, calls') \<and> internal e" by blast
next
  fix k
  assume k: "k \<in> set required_keys" "map_of kvs k = None"
    and a: "in_range (-90) 90 la \<and> in_range (-180) 180 lo
            \<and> client_reverse_geocode E la lo = (Inr (PDict kvs), calls')"
  from a reverse_fails_on_missing_entry [OF k, of la lo E calls']
  obtain e where e: "service_reverse_geocode E la lo = (Inl e, calls')" "internal e" by blast
  from controller_reverse_500 [OF e] a
  show "controller_reverse_geocode E (Some la) (Some lo)
          = (\<lparr>status = 500, body = ServerErrorContent\<rparr>, calls')" by blast
next
  fix l
  assume "lawful V \<and> map_of kvs ''licence'' = None" and "build_location_dto V (PDict kvs) = Inr l"
  then show "licence l = []" using build_location_dto_licence [of V kvs l] by blast
next
  fix r c
  assume "lawful (pydantic E) \<and> map_of kvs ''licence'' = None
        \<and> in_range (-90) 90 la \<and> in_range (-180) 180 lo
        \<and> client_reverse_geocode E la lo = (Inr (PDict kvs), calls')"
    and "service_reverse_geocode E la lo = (Inr r, c)"
  then show "r_licence r = []" using reverse_licence [of la lo E kvs calls' r c] by blast
qed

theorem required_entries_mandatory_licence_defaulted_witness:
  "raises internal (build_location_dto strict no_lat_record)
   \<and> controller_search_address (sample_env (PList [bare_record, no_lat_record]))
         (Some [32, 97]) (Some 2)
       = (\<lparr>status = 500, body = ServerErrorContent\<rparr>,
          [search_request (settings (sample_env (PList [bare_record, no_lat_record]))) [97] 2])
   \<and> controller_reverse_geocode (sample_env no_lat_record) (Some (Fin 1)) (Some (Fin 2))
       = (\<lparr>status = 500, body = ServerErrorContent\<rparr>,
          [reverse_request (settings (sample_env no_lat_record)) (Fin 1) (Fin 2)])
   \<and> (\<exists>l. build_location_dto strict bare_record = Inr l \<and> licence l = [])
   \<and> (\<exists>r c. service_reverse_geocode (sample_env bare_record) (Fin 1) (Fin 2) = (Inr r, c)
         \<and> r_licence r = [])"
proof -
  define kn where "kn = [(''place_id'', PInt 7), (''licence'', PStr (u ''ODbL 1.0'')),
            (''lon'', PStr (u ''2.5'')), (''display_name'', PStr (u ''Somewhere''))]"
  define kb where "kb = [(''place_id'', PInt 7), (''lat'', PStr (u ''1.5'')),
            (''lon'', PStr (u ''2.5'')), (''display_name'', PStr (u ''Somewhere''))]"
  have n: "no_lat_record = PDict kn" by (simp add: no_lat_record_def kn_def)
  have b: "bare_record = PDict kb" by (simp add: bare_record_def kb_def)
  let ?Es = "sample_env (PList [PDict kb, PDict kn])"
  let ?cs = "[search_request (settings ?Es) [97] 2]"
  let ?En = "sample_env (PDict kn)"
  let ?cn = "[reverse_request (settings ?En) (Fin 1) (Fin 2)]"
  let ?Eb = "sample_env (PDict kb)"
  let ?cb = "[reverse_request (settings ?Eb) (Fin 1) (Fin 2)]"
  have req: "''lat'' \<in> set required_keys" by (simp add: required_keys_def)
  have nl: "map_of kn ''lat'' = None" by (simp add: kn_def)
  have ne: "map_of kn ''error'' = None" by (simp add: kn_def)
  have bl: "map_of kb ''licence'' = None" by (simp add: kb_def)
  have be: "map_of kb ''error'' = None" by (simp add: kb_def)
  have wb: "well_formed (PDict kb)" using wf_bare by (simp only: b)
  have r: "in_range (-90) 90 (Fin 1)" "in_range (-180) 180 (Fin 2)"
    by (simp_all add: in_range_def)
  have hs: "strip [32, 97] \<noteq> []
      \<and> client_search_address ?Es (strip [32, 97]) 2 = (Inr [PDict kb, PDict kn], ?cs)
      \<and> PDict kn \<in> set [PDict kb, PDict kn]"
    by (simp only: strip_a client_search_sample) simp
  have hl: "check_limit (Some 2) = [] \<and> (case Some 2 of None \<Rightarrow> 10 | Some m \<Rightarrow> m) = (2::int)"
    by (simp add: check_limit_def)
  have hr: "in_range (-90) 90 (Fin 1) \<and> in_range (-180) 180 (Fin 2)
      \<and> client_reverse_geocode ?En (Fin 1) (Fin 2) = (Inr (PDict kn), ?cn)"
    using r client_reverse_sample [OF ne, of "Fin 1" "Fin 2"] by simp
  note S = required_entries_mandatory_licence_defaulted
      [where kvs = kn and V = strict and q = "[32, 97]" and E = ?Es and n = 2
         and rs = "[PDict kb, PDict kn]" and calls = ?cs and la = "Fin 1" and lo = "Fin 2"
         and calls' = "[]",
       THEN conjunct1, THEN bspec, OF req, THEN mp, OF nl]
  note f1 = S [THEN conjunct1]
  note f2 = S [THEN conjunct2, THEN conjunct1, THEN mp, OF hs, THEN conjunct2, THEN spec,
      THEN mp, OF hl]
  note f3 = required_entries_mandatory_licence_defaulted
      [where kvs = kn and V = strict and q = "[32, 97]" and E = ?En and n = 2
         and rs = "[]" and calls = "[]" and la = "Fin 1" and lo = "Fin 2" and calls' = ?cn,
       THEN conjunct1, THEN bspec, OF req, THEN mp, OF nl, THEN conjunct2, THEN conjunct2,
       THEN mp, OF hr, THEN conjunct2]
  note B = required_entries_mandatory_licence_defaulted
      [where kvs = kb and V = strict and q = "[32, 97]" and E = ?Eb and n = 2
         and rs = "[]" and calls = "[]" and la = "Fin 1" and lo = "Fin 2" and calls' = ?cb,
       THEN conjunct2]
  have lb: "build_location_dto strict (PDict kb) = Inr (location_from kb)"
    by (rule build_location_dto_wf [OF lawful_strict wb])
  from B [THEN conjunct1] lawful_strict bl lb
  have f4: "licence (location_from kb) = []" by blast
  have ls: "lawful (pydantic ?Eb)" by (simp only: pydantic_sample lawful_strict)
  note sb = service_reverse_sample [OF wb be r]
  from B [THEN conjunct2] ls bl r client_reverse_sample [OF be, of "Fin 1" "Fin 2"] sb
  have f5: "r_licence (reverse_from kb (Fin 1) (Fin 2)) = []" by blast
  from lb f4 have e4: "\<exists>l. build_location_dto strict (PDict kb) = Inr l \<and> licence l = []"
    by blast
  from sb f5 have e5: "\<exists>r c. service_reverse_geocode ?Eb (Fin 1) (Fin 2) = (Inr r, c)
         \<and> r_licence r = []" by blast
  from f1 f2 f3 e4 e5 show ?thesis unfolding n b by (intro conjI)
qed

text \<open>
  Claim C2 as stated fails for \<open>licence\<close>: a raw record without \<open>licence\<close> is mapped,
  and the Location has the empty text substituted for it.
\<close>

theorem missing_licence_counterexample:
  "build_location_dto strict
     (PDict [(''place_id'', PInt 7), (''lat'', PStr [49, 46, 53]), (''lon'', PStr [50, 46, 53]),
             (''display_name'', PStr [72, 101, 114, 101])])
   = Inr \<lparr>place_id = 7, licence = [], osm_type = None, osm_id = None, lat = [49, 46, 53],
          lon = [50, 46, 53], display_name = [72, 101, 114, 101], class_type = None,
          type = None, importance = None, address = None\<rparr>"
  by (simp add: build_location_dto_wf [OF lawful_strict] location_from_def licence_of_def)

end
